theory Spec2Isabelle
  imports Main "HOL-Library.Word"
begin

section \<open>JavaScript values\<close>

text \<open>
  A JavaScript string is a sequence of UTF-16 code units. \<open>js\<close> embeds an ASCII
  literal.
\<close>

type_synonym js_string = "16 word list"

definition js :: "string \<Rightarrow> js_string" where
  "js s = map (\<lambda>c. of_nat (of_char c)) s"

text \<open>
  \<open>String.prototype.trim\<close> removes the ECMAScript WhiteSpace and LineTerminator code
  points from both ends: TAB, LF, VT, FF, CR, SP, NBSP, the Unicode space separators,
  LS, PS and the byte order mark.
\<close>

definition isWhiteSpace :: "16 word \<Rightarrow> bool" where
  "isWhiteSpace c =
     (c = 0x09 \<or> c = 0x0A \<or> c = 0x0B \<or> c = 0x0C \<or> c = 0x0D \<or> c = 0x20 \<or> c = 0xA0
      \<or> c = 0x1680 \<or> (0x2000 \<le> c \<and> c \<le> 0x200A) \<or> c = 0x2028 \<or> c = 0x2029
      \<or> c = 0x202F \<or> c = 0x205F \<or> c = 0x3000 \<or> c = 0xFEFF)"

definition trim :: "js_string \<Rightarrow> js_string" where
  "trim s = rev (dropWhile isWhiteSpace (rev (dropWhile isWhiteSpace s)))"

text \<open>
  \<open>new Date(t).toISOString()\<close> is defined for the time values of ECMAScript, at
  most 8640000000000000 milliseconds away from the epoch, and raises a RangeError for
  every other number. ClickUp reports \<open>date_created\<close> and \<open>date_updated\<close> as
  epoch milliseconds; the type of timestamps holds exactly the time values, so a page
  whose timestamp is not a date is outside this model.
\<close>

typedef timestamp = "{t :: int. \<bar>t\<bar> \<le> 8640000000000000}"
  by (rule exI [of _ 0]) simp

section \<open>The page tree\<close>

text \<open>The interface \<open>ClickUpPage\<close>; the field \<open>id\<close> is \<open>page_id\<close> here.\<close>

datatype ClickUpPage = ClickUpPage
  (workspace_id: js_string)
  (doc_id: js_string)
  (page_id: js_string)
  (archived: bool)
  (name: js_string)
  (content: js_string)
  (parent_id: "js_string option")
  (pages: "ClickUpPage list")
  (date_created: timestamp)
  (date_updated: timestamp)

text \<open>
  The test of \<open>flattenPages\<close> and of every \<open>processPages\<close>:
  \<open>page.content && page.content.trim() !== '' && !page.archived\<close>. A string is truthy
  when it is not empty.
\<close>

definition syncable :: "ClickUpPage \<Rightarrow> bool" where
  "syncable page \<longleftrightarrow> content page \<noteq> [] \<and> trim (content page) \<noteq> [] \<and> \<not> archived page"

text \<open>
  \<open>flattenPages\<close>, the inner function of the batched \<open>processPages\<close>: the loop over
  \<open>pages\<close> pushes the page when it passes the test and then appends the flattened
  children when \<open>page.pages\<close> is non-empty.
\<close>

fun flattenPages :: "ClickUpPage list \<Rightarrow> ClickUpPage list" where
  "flattenPages [] = []"
| "flattenPages (ClickUpPage w d i a n c par sub cr up # rest) =
     (let page = ClickUpPage w d i a n c par sub cr up in
        (if syncable page then [page] else [])
        @ (if sub \<noteq> [] then flattenPages sub else [])
        @ flattenPages rest)"

text \<open>
  The walk the specification describes: every page reachable through \<open>pages\<close>, depth
  first, a parent before its children.
\<close>

fun walk :: "ClickUpPage list \<Rightarrow> ClickUpPage list" where
  "walk [] = []"
| "walk (ClickUpPage w d i a n c par sub cr up # rest) =
     ClickUpPage w d i a n c par sub cr up # walk sub @ walk rest"

section \<open>The outside world\<close>

text \<open>
  What a \<open>catch\<close> clause can receive: the error axios rejects with (carrying the status
  of the response when there was one: a network failure and a timeout carry none), a
  TypeError of the language, and \<open>undefined\<close> (the value of \<open>lastError\<close> before its
  first assignment).
\<close>

datatype js_error = AxiosError "nat option" | TypeError | Undefined

text \<open>An entry of \<open>response.data.docs\<close>.\<close>

record doc =
  doc_ident :: js_string
  doc_name :: js_string

text \<open>
  \<open>response.data\<close> as JavaScript sees it. The type annotations promise an array of
  pages; the server decides. \<open>JNull\<close> is \<open>null\<close> or \<open>undefined\<close>, \<open>JDocs\<close> an object
  with an array \<open>docs\<close>, \<open>JOther b\<close> any other number, boolean or object, \<open>b\<close> telling
  whether it is truthy.
\<close>

datatype js_data =
    JNull
  | JString js_string
  | JArray "ClickUpPage list"
  | JDocs "doc list"
  | JOther bool

fun truthy :: "js_data \<Rightarrow> bool" where
  "truthy JNull = False"
| "truthy (JString s) = (s \<noteq> [])"
| "truthy (JArray ps) = True"
| "truthy (JDocs ds) = True"
| "truthy (JOther b) = b"

text \<open>Reading \<open>data.length\<close> raises a TypeError on \<open>null\<close> and \<open>undefined\<close> only.\<close>

fun lengthOf :: "js_data \<Rightarrow> js_error + unit" where
  "lengthOf JNull = Inl TypeError"
| "lengthOf d = Inr ()"

text \<open>
  What \<open>for (const page of pages)\<close> visits. An array gives its elements. A string gives
  its characters, which have neither \<open>content\<close> nor \<open>pages\<close>, so that the loop bodies
  of this program do nothing for them. Every other value is not iterable.
\<close>

fun forOf :: "js_data \<Rightarrow> js_error + ClickUpPage list" where
  "forOf (JArray ps) = Inr ps"
| "forOf (JString s) = Inr []"
| "forOf d = Inl TypeError"

datatype http_reply = Response nat js_data | NoResponse

record get_request =
  get_url :: js_string
  max_page_depth :: "int option"

record post_request =
  url :: js_string
  text_field :: js_string
  source_url :: js_string

text \<open>
  The lines of the console that report an outcome. The other \<open>console.log\<close> lines
  (progress messages, and the lines of the axios interceptors) are not modelled.
\<close>

datatype log_line =
    AttemptFailed nat js_error
  | AllRetriesFailed js_error
  | FetchError js_error
  | DocNotFound js_string
  | NoData js_string
  | UpsertError js_string js_error
  | Upserted js_string
  | DocsError js_error
  | DocError js_string js_error
  | DocProcessed js_string
  | AllProcessed
  | TotalUpserted nat
  | MainError js_error

text \<open>What a run does, in the order in which it does it.\<close>

datatype event =
    Get get_request
  | Post post_request
  | Sleep nat
  | Console log_line

text \<open>
  The environment: the two servers as state machines over a world \<open>'w\<close>, the two
  library functions the program formats text with (\<open>slugify\<close> with the options
  \<open>lower\<close>, \<open>strict\<close> and \<open>trim\<close>, which returns a string for every string, and
  \<open>Date.prototype.toISOString\<close>), and the identifiers read from the process
  environment.
\<close>

record 'w env =
  clickup :: "'w \<Rightarrow> get_request \<Rightarrow> http_reply \<times> 'w"
  dust :: "'w \<Rightarrow> post_request \<Rightarrow> http_reply \<times> 'w"
  slugify :: "js_string \<Rightarrow> js_string"
  toISOString :: "timestamp \<Rightarrow> js_string"
  CLICKUP_WORKSPACE_ID :: js_string
  CLICKUP_DOC_ID :: js_string
  DUST_WORKSPACE_ID :: js_string
  DUST_DATASOURCE_ID :: js_string
  DUST_VAULT_ID :: js_string

record 'w state =
  world :: 'w
  trace :: "event list"

definition emit :: "event \<Rightarrow> 'w state \<Rightarrow> 'w state" where
  "emit e s = s\<lparr>trace := trace s @ [e]\<rparr>"

section \<open>The HTTP clients\<close>

text \<open>
  axios resolves with the response when \<open>validateStatus\<close> accepts its status and
  rejects otherwise; without a response it rejects.
\<close>

definition settle :: "(nat \<Rightarrow> bool) \<Rightarrow> http_reply \<Rightarrow> js_error + js_data" where
  "settle validateStatus r =
     (case r of
        NoResponse \<Rightarrow> Inl (AxiosError None)
      | Response status data \<Rightarrow>
          if validateStatus status then Inr data else Inl (AxiosError (Some status)))"

text \<open>The default of axios, and the one \<open>clickup-docs-to-dust.ts\<close> configures.\<close>

definition validateStatus_default :: "nat \<Rightarrow> bool" where
  "validateStatus_default status \<longleftrightarrow> 200 \<le> status \<and> status < 300"

definition validateStatus_ts :: "nat \<Rightarrow> bool" where
  "validateStatus_ts status \<longleftrightarrow> status < 500"

text \<open>
  \<open>clickupApi.get\<close> and \<open>dustApi.post\<close>. The Bottleneck limiters they are wrapped in
  delay a call and pass its result on; the delay is not modelled. None of the functions
  below calls a limited function from inside a job of the same limiter.
\<close>

definition clickupApi_get ::
  "'w env \<Rightarrow> (nat \<Rightarrow> bool) \<Rightarrow> get_request \<Rightarrow> 'w state \<Rightarrow> (js_error + js_data) \<times> 'w state" where
  "clickupApi_get E validateStatus req s =
     (case clickup E (world s) req of
        (r, w) \<Rightarrow> (settle validateStatus r, \<lparr>world = w, trace = trace s @ [Get req]\<rparr>))"

definition limitedDustApiPost ::
  "'w env \<Rightarrow> post_request \<Rightarrow> 'w state \<Rightarrow> (js_error + js_data) \<times> 'w state" where
  "limitedDustApiPost E req s =
     (case dust E (world s) req of
        (r, w) \<Rightarrow> (settle validateStatus_default r, \<lparr>world = w, trace = trace s @ [Post req]\<rparr>))"

definition pages_request :: "'w env \<Rightarrow> js_string \<Rightarrow> int \<Rightarrow> get_request" where
  "pages_request E docId depth =
     \<lparr>get_url = js ''/workspaces/'' @ CLICKUP_WORKSPACE_ID E @ js ''/docs/'' @ docId @ js ''/pages'',
      max_page_depth = Some depth\<rparr>"

definition docs_request :: "'w env \<Rightarrow> get_request" where
  "docs_request E =
     \<lparr>get_url = js ''/workspaces/'' @ CLICKUP_WORKSPACE_ID E @ js ''/docs'',
      max_page_depth = None\<rparr>"

section \<open>Identifier derivation and the upsert\<close>

definition generateSlug :: "'w env \<Rightarrow> js_string \<Rightarrow> js_string" where
  "generateSlug E name' = slugify E name'"

text \<open>The constant \<open>documentId\<close> of \<open>upsertToDustDatasource\<close>.\<close>

definition documentId :: "'w env \<Rightarrow> ClickUpPage \<Rightarrow> js_string" where
  "documentId E page = page_id page @ js ''-'' @ generateSlug E (name page)"

text \<open>
  The request \<open>upsertToDustDatasource\<close> sends. \<open>docOf\<close> is the document the source
  link names: \<open>page.doc_id\<close> in the variants that walk every document, the configured
  \<open>CLICKUP_DOC_ID\<close> in the others.
\<close>

definition dustRequest :: "'w env \<Rightarrow> (ClickUpPage \<Rightarrow> js_string) \<Rightarrow> ClickUpPage \<Rightarrow> post_request" where
  "dustRequest E docOf page =
     (let createdDate = toISOString E (date_created page);
          updatedDate = toISOString E (date_updated page);
          content' = trim ([0x0A] @ js ''Title: '' @ name page
                       @ [0x0A] @ js ''Created At: '' @ createdDate
                       @ [0x0A] @ js ''Updated At: '' @ updatedDate
                       @ [0x0A] @ js ''Content:''
                       @ [0x0A] @ content page
                       @ [0x0A] @ js ''  '')
      in \<lparr>url = js ''/w/'' @ DUST_WORKSPACE_ID E @ js ''/vaults/'' @ DUST_VAULT_ID E
                 @ js ''/data_sources/'' @ DUST_DATASOURCE_ID E @ js ''/documents/''
                 @ documentId E page,
          text_field = content',
          source_url = js ''https://app.clickup.com/'' @ CLICKUP_WORKSPACE_ID E @ js ''/v/dc/''
                 @ docOf page @ js ''/'' @ page_id page\<rparr>)"

text \<open>
  \<open>upsertToDustDatasource\<close>: one call of \<open>limitedDustApiPost\<close> inside \<open>try\<close>; the
  \<open>catch\<close> clause logs the error and returns.
\<close>

definition upsertToDustDatasource ::
  "'w env \<Rightarrow> (ClickUpPage \<Rightarrow> js_string) \<Rightarrow> ClickUpPage \<Rightarrow> 'w state \<Rightarrow> (js_error + unit) \<times> 'w state" where
  "upsertToDustDatasource E docOf page s =
     (case limitedDustApiPost E (dustRequest E docOf page) s of
        (Inr response, s1) \<Rightarrow> (Inr (), emit (Console (Upserted (documentId E page))) s1)
      | (Inl error, s1) \<Rightarrow> (Inr (), emit (Console (UpsertError (documentId E page) error)) s1))"

section \<open>The retrying fetcher\<close>

definition maxRetries :: nat where
  "maxRetries = 3"

text \<open>
  \<open>getClickUpPagesWithRetry\<close> of \<open>clickup-docs-to-dust.ts\<close>. The loop
  \<open>for (let attempt = 1; attempt <= maxRetries; attempt++)\<close> is the recursion on
  \<open>attempt\<close>; after the loop the function throws \<open>lastError\<close>.
\<close>

function getClickUpPagesWithRetry_ts_loop ::
  "'w env \<Rightarrow> js_string \<Rightarrow> nat \<Rightarrow> js_error \<Rightarrow> 'w state \<Rightarrow> (js_error + js_data) \<times> 'w state" where
  "getClickUpPagesWithRetry_ts_loop E docId attempt lastError s =
     (if attempt \<le> maxRetries then
        (case clickupApi_get E validateStatus_ts (pages_request E docId 1) s of
           (Inr data, s1) \<Rightarrow>
             if \<not> truthy data then (Inr (JArray []), emit (Console (NoData docId)) s1)
             else (Inr data, s1)
         | (Inl error, s1) \<Rightarrow>
             if error = AxiosError (Some 404)
             then (Inr (JArray []), emit (Console (DocNotFound docId)) s1)
             else
               (let s2 = emit (Console (AttemptFailed attempt error)) s1;
                    s3 = (if attempt < maxRetries
                          then emit (Sleep (min 10000 (2000 * 2 ^ (attempt - 1)))) s2
                          else s2)
                in getClickUpPagesWithRetry_ts_loop E docId (attempt + 1) error s3))
      else (Inl lastError, emit (Console (AllRetriesFailed lastError)) s))"
  by pat_completeness auto
termination
  by (relation "measure (\<lambda>(E, docId, attempt, lastError, s). maxRetries + 1 - attempt)") auto

declare getClickUpPagesWithRetry_ts_loop.simps [simp del]

definition getClickUpPagesWithRetry_ts ::
  "'w env \<Rightarrow> js_string \<Rightarrow> 'w state \<Rightarrow> (js_error + js_data) \<times> 'w state" where
  "getClickUpPagesWithRetry_ts E docId s = getClickUpPagesWithRetry_ts_loop E docId 1 Undefined s"

text \<open>
  \<open>getClickUpPagesWithRetry\<close> of the second unnamed file (\<open>part_001\<close>): the default
  \<open>validateStatus\<close>, the delay \<open>2000 * attempt\<close>, and \<open>response.data.length\<close> read
  inside \<open>try\<close>.
\<close>

function getClickUpPagesWithRetry_p1_loop ::
  "'w env \<Rightarrow> js_string \<Rightarrow> nat \<Rightarrow> js_error \<Rightarrow> 'w state \<Rightarrow> (js_error + js_data) \<times> 'w state" where
  "getClickUpPagesWithRetry_p1_loop E docId attempt lastError s =
     (if attempt \<le> maxRetries then
        (case clickupApi_get E validateStatus_default (pages_request E docId 1) s of
           (r, s1) \<Rightarrow>
             (case (case r of Inl error \<Rightarrow> Inl error
                    | Inr data \<Rightarrow> (case lengthOf data of Inl error \<Rightarrow> Inl error | Inr u \<Rightarrow> Inr data)) of
                Inr data \<Rightarrow> (Inr data, s1)
              | Inl error \<Rightarrow>
                  (let s2 = emit (Console (AttemptFailed attempt error)) s1;
                       s3 = (if attempt < maxRetries then emit (Sleep (2000 * attempt)) s2 else s2)
                   in getClickUpPagesWithRetry_p1_loop E docId (attempt + 1) error s3)))
      else (Inl lastError, emit (Console (AllRetriesFailed lastError)) s))"
  by pat_completeness auto
termination
  by (relation "measure (\<lambda>(E, docId, attempt, lastError, s). maxRetries + 1 - attempt)") auto

declare getClickUpPagesWithRetry_p1_loop.simps [simp del]

definition getClickUpPagesWithRetry_p1 ::
  "'w env \<Rightarrow> js_string \<Rightarrow> 'w state \<Rightarrow> (js_error + js_data) \<times> 'w state" where
  "getClickUpPagesWithRetry_p1 E docId s = getClickUpPagesWithRetry_p1_loop E docId 1 Undefined s"

text \<open>\<open>getClickUpPages\<close> of \<open>clickup-docs-to-dust.ts\<close>: logs the error and throws it again.\<close>

definition getClickUpPages_ts ::
  "'w env \<Rightarrow> js_string \<Rightarrow> 'w state \<Rightarrow> (js_error + js_data) \<times> 'w state" where
  "getClickUpPages_ts E docId s =
     (case getClickUpPagesWithRetry_ts E docId s of
        (Inr pages', s1) \<Rightarrow> (Inr pages', s1)
      | (Inl error, s1) \<Rightarrow> (Inl error, emit (Console (FetchError error)) s1))"

text \<open>
  \<open>getClickUpPages\<close> of the third unnamed file (\<open>part_002\<close>): one request, the whole
  tree (\<open>max_page_depth: -1\<close>), no retry.
\<close>

definition getClickUpPages_p2 ::
  "'w env \<Rightarrow> js_string \<Rightarrow> 'w state \<Rightarrow> (js_error + js_data) \<times> 'w state" where
  "getClickUpPages_p2 E docId s =
     (case clickupApi_get E validateStatus_default (pages_request E docId (- 1)) s of
        (r, s1) \<Rightarrow>
          (case (case r of Inl error \<Rightarrow> Inl error
                 | Inr data \<Rightarrow> (case lengthOf data of Inl error \<Rightarrow> Inl error | Inr u \<Rightarrow> Inr data)) of
             Inr data \<Rightarrow> (Inr data, s1)
           | Inl error \<Rightarrow> (Inl error, emit (Console (FetchError error)) s1)))"

section \<open>Processing the pages\<close>

text \<open>
  \<open>processPages\<close> of \<open>clickup-docs-to-dust.ts\<close> (and of \<open>part_001\<close>, which differs in
  the document of the source link only): upsert the page when it passes the test, then
  process its children, then go on with the next page. An \<open>await\<close> passes a rejection
  on.
\<close>

fun processPages_ts ::
  "'w env \<Rightarrow> (ClickUpPage \<Rightarrow> js_string) \<Rightarrow> ClickUpPage list \<Rightarrow> 'w state \<Rightarrow> (js_error + unit) \<times> 'w state" where
  "processPages_ts E docOf [] s = (Inr (), s)"
| "processPages_ts E docOf (ClickUpPage w d i a n c par sub cr up # rest) s =
     (let page = ClickUpPage w d i a n c par sub cr up in
        (case (if content page \<noteq> [] \<and> trim (content page) \<noteq> []
               then (if \<not> archived page then upsertToDustDatasource E docOf page s else (Inr (), s))
               else (Inr (), s)) of
           (Inl error, s1) \<Rightarrow> (Inl error, s1)
         | (Inr u, s1) \<Rightarrow>
             (case (if sub \<noteq> [] then processPages_ts E docOf sub s1 else (Inr (), s1)) of
                (Inl error, s2) \<Rightarrow> (Inl error, s2)
              | (Inr u', s2) \<Rightarrow> processPages_ts E docOf rest s2)))"

text \<open>The call \<open>processPages(pages)\<close> of \<open>main\<close>, on whatever the fetch returned.\<close>

definition processPages_ts_data ::
  "'w env \<Rightarrow> (ClickUpPage \<Rightarrow> js_string) \<Rightarrow> js_data \<Rightarrow> 'w state \<Rightarrow> (js_error + unit) \<times> 'w state" where
  "processPages_ts_data E docOf data s =
     (case forOf data of
        Inl error \<Rightarrow> (Inl error, s)
      | Inr ps \<Rightarrow> processPages_ts E docOf ps s)"

text \<open>
  \<open>processPages\<close> of \<open>part_002\<close>, which counts: the loop carries \<open>upsertedCount\<close>,
  \<open>upsertedCount++\<close> follows the awaited upsert, and the count of the children is
  added. The parameter \<open>depth\<close> indents progress messages only and is left out.
\<close>

fun processPages_p2_loop ::
  "'w env \<Rightarrow> ClickUpPage list \<Rightarrow> nat \<Rightarrow> 'w state \<Rightarrow> (js_error + nat) \<times> 'w state" where
  "processPages_p2_loop E [] upsertedCount s = (Inr upsertedCount, s)"
| "processPages_p2_loop E (ClickUpPage w d i a n c par sub cr up # rest) upsertedCount s =
     (let page = ClickUpPage w d i a n c par sub cr up in
        (case (if content page \<noteq> [] \<and> trim (content page) \<noteq> []
               then (if \<not> archived page
                     then (case upsertToDustDatasource E doc_id page s of
                             (Inl error, s1) \<Rightarrow> (Inl error, s1)
                           | (Inr u, s1) \<Rightarrow> (Inr (upsertedCount + 1), s1))
                     else (Inr upsertedCount, s))
               else (Inr upsertedCount, s)) of
           (Inl error, s1) \<Rightarrow> (Inl error, s1)
         | (Inr upsertedCount1, s1) \<Rightarrow>
             (case (if sub \<noteq> []
                    then (case processPages_p2_loop E sub 0 s1 of
                            (Inl error, s2) \<Rightarrow> (Inl error, s2)
                          | (Inr below, s2) \<Rightarrow> (Inr (upsertedCount1 + below), s2))
                    else (Inr upsertedCount1, s1)) of
                (Inl error, s2) \<Rightarrow> (Inl error, s2)
              | (Inr upsertedCount2, s2) \<Rightarrow> processPages_p2_loop E rest upsertedCount2 s2)))"

definition processPages_p2 ::
  "'w env \<Rightarrow> ClickUpPage list \<Rightarrow> 'w state \<Rightarrow> (js_error + nat) \<times> 'w state" where
  "processPages_p2 E pages' s = processPages_p2_loop E pages' 0 s"

definition processPages_p2_data ::
  "'w env \<Rightarrow> js_data \<Rightarrow> 'w state \<Rightarrow> (js_error + nat) \<times> 'w state" where
  "processPages_p2_data E data s =
     (case forOf data of
        Inl error \<Rightarrow> (Inl error, s)
      | Inr ps \<Rightarrow> processPages_p2 E ps s)"

text \<open>
  The batched \<open>processPages\<close> of the first unnamed file (\<open>part_000\<close>).
  \<open>Promise.all(batch.map(page => upsertToDustDatasource(page)))\<close> starts the upserts
  of the batch in order and waits for all of them; the limiter of the destination
  (\<open>maxConcurrent: 1\<close>) runs their requests one at a time in that order. Were one of
  them rejected, \<open>Promise.all\<close> would reject with the first such error while the others
  still run.
\<close>

fun promiseAll_upserts ::
  "'w env \<Rightarrow> (ClickUpPage \<Rightarrow> js_string) \<Rightarrow> ClickUpPage list \<Rightarrow> 'w state \<Rightarrow> (js_error + unit) \<times> 'w state" where
  "promiseAll_upserts E docOf [] s = (Inr (), s)"
| "promiseAll_upserts E docOf (page # batch) s =
     (case upsertToDustDatasource E docOf page s of
        (r, s1) \<Rightarrow>
          (case promiseAll_upserts E docOf batch s1 of
             (r', s2) \<Rightarrow> (case r of Inl error \<Rightarrow> (Inl error, s2) | Inr u \<Rightarrow> (r', s2))))"

text \<open>
  The loop \<open>for (let i = 0; i < allPages.length; i += batchSize)\<close>. With
  \<open>batchSize = 0\<close> and a page to process the loop never ends: the result is \<open>None\<close>.
\<close>

function processPages_p0_loop ::
  "'w env \<Rightarrow> ClickUpPage list \<Rightarrow> nat \<Rightarrow> nat \<Rightarrow> 'w state \<Rightarrow> ((js_error + unit) \<times> 'w state) option" where
  "processPages_p0_loop E allPages batchSize i s =
     (if i < length allPages then
        (if batchSize = 0 then None
         else
           (let batch = take batchSize (drop i allPages) in
              (case promiseAll_upserts E (\<lambda>page. CLICKUP_DOC_ID E) batch s of
                 (Inl error, s1) \<Rightarrow> Some (Inl error, s1)
               | (Inr u, s1) \<Rightarrow>
                   processPages_p0_loop E allPages batchSize (i + batchSize)
                     (if i + batchSize < length allPages then emit (Sleep 1000) s1 else s1))))
      else Some (Inr (), s))"
  by pat_completeness auto
termination
  by (relation "measure (\<lambda>(E, allPages, batchSize, i, s). length allPages - i)") auto

declare processPages_p0_loop.simps [simp del]

definition processPages_p0 ::
  "'w env \<Rightarrow> ClickUpPage list \<Rightarrow> nat \<Rightarrow> 'w state \<Rightarrow> ((js_error + unit) \<times> 'w state) option" where
  "processPages_p0 E pages' batchSize s =
     processPages_p0_loop E (flattenPages pages') batchSize 0 s"

section \<open>The orchestrators\<close>

text \<open>
  \<open>getAllDocs\<close>: a request outside the limiter. Reading \<open>response.data.docs.length\<close>
  (in \<open>part_002\<close>: calling \<open>response.data.docs.map\<close>) raises a TypeError unless the
  reply is an object with an array \<open>docs\<close>. The handler logs the error and throws it
  again.
\<close>

fun docsOf :: "js_data \<Rightarrow> js_error + doc list" where
  "docsOf (JDocs ds) = Inr ds"
| "docsOf d = Inl TypeError"

definition getAllDocs_ts :: "'w env \<Rightarrow> 'w state \<Rightarrow> (js_error + doc list) \<times> 'w state" where
  "getAllDocs_ts E s =
     (case clickupApi_get E validateStatus_ts (docs_request E) s of
        (r, s1) \<Rightarrow>
          (case (case r of Inl error \<Rightarrow> Inl error | Inr data \<Rightarrow> docsOf data) of
             Inr docs \<Rightarrow> (Inr docs, s1)
           | Inl error \<Rightarrow> (Inl error, emit (Console (DocsError error)) s1)))"

definition getAllDocs_p2 :: "'w env \<Rightarrow> 'w state \<Rightarrow> (js_error + js_string list) \<times> 'w state" where
  "getAllDocs_p2 E s =
     (case clickupApi_get E validateStatus_default (docs_request E) s of
        (r, s1) \<Rightarrow>
          (case (case r of Inl error \<Rightarrow> Inl error | Inr data \<Rightarrow> docsOf data) of
             Inr docs \<Rightarrow> (Inr (map doc_ident docs), s1)
           | Inl error \<Rightarrow> (Inl error, emit (Console (DocsError error)) s1)))"

text \<open>
  \<open>main\<close> of \<open>clickup-docs-to-dust.ts\<close>: one \<open>try\<close> around the whole run. The loop
  over the documents has no handler of its own.
\<close>

fun main_ts_docs :: "'w env \<Rightarrow> doc list \<Rightarrow> 'w state \<Rightarrow> (js_error + unit) \<times> 'w state" where
  "main_ts_docs E [] s = (Inr (), s)"
| "main_ts_docs E (doc # docs) s =
     (case getClickUpPages_ts E (doc_ident doc) s of
        (Inl error, s1) \<Rightarrow> (Inl error, s1)
      | (Inr pages', s1) \<Rightarrow>
          (case processPages_ts_data E doc_id pages' s1 of
             (Inl error, s2) \<Rightarrow> (Inl error, s2)
           | (Inr u, s2) \<Rightarrow> main_ts_docs E docs s2))"

definition main_ts :: "'w env \<Rightarrow> 'w state \<Rightarrow> (js_error + unit) \<times> 'w state" where
  "main_ts E s =
     (case getAllDocs_ts E s of
        (Inl error, s1) \<Rightarrow> (Inr (), emit (Console (MainError error)) s1)
      | (Inr docs, s1) \<Rightarrow>
          (case main_ts_docs E docs s1 of
             (Inl error, s2) \<Rightarrow> (Inr (), emit (Console (MainError error)) s2)
           | (Inr u, s2) \<Rightarrow> (Inr (), emit (Console AllProcessed) s2)))"

text \<open>
  \<open>main\<close> of \<open>part_002\<close>: each document is processed inside its own \<open>try\<close>, whose
  handler logs the error and continues with the next document.
\<close>

fun main_p2_docs :: "'w env \<Rightarrow> js_string list \<Rightarrow> nat \<Rightarrow> 'w state \<Rightarrow> nat \<times> 'w state" where
  "main_p2_docs E [] totalUpsertedDocs s = (totalUpsertedDocs, s)"
| "main_p2_docs E (docId # docIds) totalUpsertedDocs s =
     (case getClickUpPages_p2 E docId s of
        (Inl error, s1) \<Rightarrow>
          main_p2_docs E docIds totalUpsertedDocs (emit (Console (DocError docId error)) s1)
      | (Inr pages', s1) \<Rightarrow>
          (case processPages_p2_data E pages' s1 of
             (Inl error, s2) \<Rightarrow>
               main_p2_docs E docIds totalUpsertedDocs (emit (Console (DocError docId error)) s2)
           | (Inr documentUpsertCount, s2) \<Rightarrow>
               main_p2_docs E docIds (totalUpsertedDocs + documentUpsertCount)
                 (emit (Console (DocProcessed docId)) s2)))"

definition main_p2 :: "'w env \<Rightarrow> 'w state \<Rightarrow> (js_error + unit) \<times> 'w state" where
  "main_p2 E s =
     (case getAllDocs_p2 E s of
        (Inl error, s1) \<Rightarrow> (Inr (), emit (Console (MainError error)) s1)
      | (Inr docIds, s1) \<Rightarrow>
          (case main_p2_docs E docIds 0 s1 of
             (totalUpsertedDocs, s2) \<Rightarrow> (Inr (), emit (Console (TotalUpserted totalUpsertedDocs)) s2)))"

section \<open>Reading a trace\<close>

fun posts :: "event list \<Rightarrow> post_request list" where
  "posts [] = []"
| "posts (Post r # es) = r # posts es"
| "posts (e # es) = posts es"

fun gets :: "event list \<Rightarrow> get_request list" where
  "gets [] = []"
| "gets (Get r # es) = r # gets es"
| "gets (e # es) = gets es"

fun sleeps :: "event list \<Rightarrow> nat list" where
  "sleeps [] = []"
| "sleeps (Sleep n # es) = n # sleeps es"
| "sleeps (e # es) = sleeps es"

text \<open>
  The state after upserting the pages of a list one after the other: what the walks
  below are compared with.
\<close>

fun upserted :: "'w env \<Rightarrow> (ClickUpPage \<Rightarrow> js_string) \<Rightarrow> ClickUpPage list \<Rightarrow> 'w state \<Rightarrow> 'w state" where
  "upserted E docOf [] s = s"
| "upserted E docOf (page # rest) s =
     upserted E docOf rest (snd (upsertToDustDatasource E docOf page s))"

declare upserted.simps [simp del]

fun failures :: "event list \<Rightarrow> (js_string \<times> js_error) list" where
  "failures [] = []"
| "failures (Console (UpsertError documentId' error) # es) = (documentId', error) # failures es"
| "failures (e # es) = failures es"

fun successes :: "event list \<Rightarrow> js_string list" where
  "successes [] = []"
| "successes (Console (Upserted documentId') # es) = documentId' # successes es"
| "successes (e # es) = successes es"

text \<open>The requests and the pauses of a trace, in order.\<close>

fun deliveries :: "event list \<Rightarrow> event list" where
  "deliveries [] = []"
| "deliveries (Post r # es) = Post r # deliveries es"
| "deliveries (Sleep n # es) = Sleep n # deliveries es"
| "deliveries (e # es) = deliveries es"

section \<open>Notions the claims are stated with\<close>

text \<open>
  The batches of the specification: the list cut into pieces of \<open>n\<close> elements, the last
  one shorter when the length is not a multiple of \<open>n\<close>.
\<close>

function chunks :: "nat \<Rightarrow> 'a list \<Rightarrow> 'a list list" where
  "chunks n xs = (if xs = [] \<or> n = 0 then [] else take n xs # chunks n (drop n xs))"
  by pat_completeness auto
termination
  by (relation "measure (\<lambda>(n, xs). length xs)") auto

declare chunks.simps [simp del]

text \<open>The writes of a batch, and batches with a pause between each two of them.\<close>

definition writes :: "'w env \<Rightarrow> (ClickUpPage \<Rightarrow> js_string) \<Rightarrow> ClickUpPage list \<Rightarrow> event list" where
  "writes E docOf batch = map (\<lambda>page. Post (dustRequest E docOf page)) batch"

fun pauses :: "event list list \<Rightarrow> event list" where
  "pauses [] = []"
| "pauses [b] = b"
| "pauses (b # b' # bs) = b @ Sleep 1000 # pauses (b' # bs)"

text \<open>
  The replies of the source to \<open>n\<close> requests in a row, and whether axios rejects a
  reply.
\<close>

fun replies :: "'w env \<Rightarrow> get_request \<Rightarrow> nat \<Rightarrow> 'w \<Rightarrow> http_reply list" where
  "replies E req 0 w = []"
| "replies E req (Suc n) w = (case clickup E w req of (r, w') \<Rightarrow> r # replies E req n w')"

definition rejected :: "(nat \<Rightarrow> bool) \<Rightarrow> http_reply \<Rightarrow> bool" where
  "rejected validateStatus r =
     (case settle validateStatus r of Inl error \<Rightarrow> True | Inr data \<Rightarrow> False)"

text \<open>
  What the specification expects of the writes of a run over the candidates: each
  candidate, in order, is written once; the write is recorded as upserted or, when it
  fails, as the pair of the document identifier and the error of the write; the next
  candidate follows in either case. A write fails when there is no response or when the
  status is not one of 200 to 299.
\<close>

fun isolated_writes :: "'w env \<Rightarrow> (ClickUpPage \<Rightarrow> js_string) \<Rightarrow> ClickUpPage list \<Rightarrow> 'w \<Rightarrow> event list" where
  "isolated_writes E docOf [] w = []"
| "isolated_writes E docOf (page # rest) w =
     (case dust E w (dustRequest E docOf page) of
        (r, w') \<Rightarrow>
          [Post (dustRequest E docOf page),
           Console (case r of
                      NoResponse \<Rightarrow> UpsertError (documentId E page) (AxiosError None)
                    | Response status body \<Rightarrow>
                        if 200 \<le> status \<and> status < 300 then Upserted (documentId E page)
                        else UpsertError (documentId E page) (AxiosError (Some status)))]
          @ isolated_writes E docOf rest w')"

declare isolated_writes.simps [simp del]

section \<open>Examples\<close>

text \<open>
  A tree of five pages: \<open>a\<close> with the child \<open>d\<close>, \<open>b\<close> whose content is two spaces, and
  the archived \<open>c\<close> with the child \<open>e\<close>.
\<close>

definition epoch :: timestamp where
  "epoch = Abs_timestamp 0"

definition example_page :: "string \<Rightarrow> string \<Rightarrow> string \<Rightarrow> bool \<Rightarrow> ClickUpPage list \<Rightarrow> ClickUpPage" where
  "example_page ident title body arch children =
     ClickUpPage (js ''ws'') (js ''doc'') (js ident) arch (js title) (js body) None children epoch epoch"

definition page_d :: ClickUpPage where
  "page_d = example_page ''d'' ''delta'' ''z'' False []"

definition page_a :: ClickUpPage where
  "page_a = example_page ''a'' ''alpha'' ''x'' False [page_d]"

definition page_b :: ClickUpPage where
  "page_b = example_page ''b'' ''beta'' ''  '' False []"

definition page_e :: ClickUpPage where
  "page_e = example_page ''e'' ''epsilon'' ''w'' False []"

definition page_c :: ClickUpPage where
  "page_c = example_page ''c'' ''gamma'' ''y'' True [page_e]"

definition example_tree :: "ClickUpPage list" where
  "example_tree = [page_a, page_b, page_c]"

text \<open>Seven pages without children, each of them a candidate.\<close>

definition seven_pages :: "ClickUpPage list" where
  "seven_pages =
     map (\<lambda>ident. example_page ident ''page'' ''x'' False [])
       [''p1'', ''p2'', ''p3'', ''p4'', ''p5'', ''p6'', ''p7'']"

text \<open>
  An environment whose world counts the requests each server has answered; the servers
  answer from the request and that count. The titles of the example pages are lower
  case letters, which \<open>slugify\<close> returns as they are, and their timestamps are the
  epoch.
\<close>

definition example_env ::
  "(get_request \<Rightarrow> nat \<Rightarrow> http_reply) \<Rightarrow> (post_request \<Rightarrow> nat \<Rightarrow> http_reply) \<Rightarrow> (nat \<times> nat) env" where
  "example_env source destination =
     \<lparr>clickup = (\<lambda>w req. (source req (fst w), (Suc (fst w), snd w))),
      dust = (\<lambda>w req. (destination req (snd w), (fst w, Suc (snd w)))),
      slugify = (\<lambda>title. title),
      toISOString = (\<lambda>t. js ''1970-01-01T00:00:00.000Z''),
      CLICKUP_WORKSPACE_ID = js ''ws'',
      CLICKUP_DOC_ID = js ''doc'',
      DUST_WORKSPACE_ID = js ''dw'',
      DUST_DATASOURCE_ID = js ''ds'',
      DUST_VAULT_ID = js ''dv''\<rparr>"

definition start :: "(nat \<times> nat) state" where
  "start = \<lparr>world = (0, 0), trace = []\<rparr>"

text \<open>A destination that accepts every write, and one that fails the first.\<close>

definition accepting :: "post_request \<Rightarrow> nat \<Rightarrow> http_reply" where
  "accepting req n = Response 200 JNull"

definition failing_first :: "post_request \<Rightarrow> nat \<Rightarrow> http_reply" where
  "failing_first req n = (if n = 0 then Response 500 JNull else Response 200 JNull)"

text \<open>
  Sources: one that is down; one that is down for the first two requests and then
  returns the example tree; one that answers 404 and one that answers 429, each with
  the JSON object of an error as the body; one that lists the document \<open>doc\<close> and
  answers 404 for its pages; one that lists \<open>doc\<close> and returns the example tree for it;
  and one that lists the documents \<open>d1\<close> and \<open>d2\<close>, is down for the pages of \<open>d1\<close> and
  returns the example tree for \<open>d2\<close>.
\<close>

definition source_down :: "get_request \<Rightarrow> nat \<Rightarrow> http_reply" where
  "source_down req n = Response 503 JNull"

definition source_recovering :: "get_request \<Rightarrow> nat \<Rightarrow> http_reply" where
  "source_recovering req n = (if n < 2 then Response 503 JNull else Response 200 (JArray example_tree))"

definition source_not_found :: "get_request \<Rightarrow> nat \<Rightarrow> http_reply" where
  "source_not_found req n = Response 404 (JOther True)"

definition source_rate_limited :: "get_request \<Rightarrow> nat \<Rightarrow> http_reply" where
  "source_rate_limited req n = Response 429 (JOther True)"

definition source_pages_not_found :: "get_request \<Rightarrow> nat \<Rightarrow> http_reply" where
  "source_pages_not_found req n =
     (if max_page_depth req = None
      then Response 200 (JDocs [\<lparr>doc_ident = js ''doc'', doc_name = js ''Doc''\<rparr>])
      else Response 404 (JOther True))"

definition source_one_doc :: "get_request \<Rightarrow> nat \<Rightarrow> http_reply" where
  "source_one_doc req n =
     (if max_page_depth req = None
      then Response 200 (JDocs [\<lparr>doc_ident = js ''doc'', doc_name = js ''Doc''\<rparr>])
      else Response 200 (JArray example_tree))"

definition source_first_doc_down :: "get_request \<Rightarrow> nat \<Rightarrow> http_reply" where
  "source_first_doc_down req n =
     (if max_page_depth req = None
      then Response 200 (JDocs [\<lparr>doc_ident = js ''d1'', doc_name = js ''One''\<rparr>,
                                \<lparr>doc_ident = js ''d2'', doc_name = js ''Two''\<rparr>])
      else if get_url req = js ''/workspaces/ws/docs/d1/pages'' then Response 503 JNull
      else Response 200 (JArray example_tree))"

section \<open>Reading traces\<close>

lemma posts_append: "posts (xs @ ys) = posts xs @ posts ys"
  by (induction xs rule: posts.induct) simp_all

lemma gets_append: "gets (xs @ ys) = gets xs @ gets ys"
  by (induction xs rule: gets.induct) simp_all

lemma sleeps_append: "sleeps (xs @ ys) = sleeps xs @ sleeps ys"
  by (induction xs rule: sleeps.induct) simp_all

lemma failures_append: "failures (xs @ ys) = failures xs @ failures ys"
  by (induction xs rule: failures.induct) simp_all

lemma successes_append: "successes (xs @ ys) = successes xs @ successes ys"
  by (induction xs rule: successes.induct) simp_all

lemma deliveries_append: "deliveries (xs @ ys) = deliveries xs @ deliveries ys"
  by (induction xs rule: deliveries.induct) simp_all

section \<open>The walk and the filter\<close>

lemma walk_Cons: "walk (page # rest) = page # walk (pages page) @ walk rest"
  by (cases page) simp

lemma flattenPages_Cons:
  "flattenPages (page # rest) =
     (if syncable page then [page] else []) @ flattenPages (pages page) @ flattenPages rest"
  by (cases page) (simp add: Let_def)

lemma flattenPages_walk: "flattenPages ps = filter syncable (walk ps)"
  by (induction ps rule: flattenPages.induct) (simp_all add: Let_def)

lemma trim_Nil: "trim [] = []"
  by (simp add: trim_def)

lemma syncable_iff: "syncable page \<longleftrightarrow> trim (content page) \<noteq> [] \<and> \<not> archived page"
  using trim_Nil by (auto simp: syncable_def)

lemma walk_closed: "page \<in> set (walk ps) \<Longrightarrow> set (walk (pages page)) \<subseteq> set (walk ps)"
  by (induction ps rule: walk.induct) auto

section \<open>One upsert, and one after the other\<close>

lemma upsert_result:
  "upsertToDustDatasource E docOf page s =
     (Inr (),
      \<lparr>world = snd (dust E (world s) (dustRequest E docOf page)),
       trace = trace s @
         [Post (dustRequest E docOf page),
          Console (case settle validateStatus_default (fst (dust E (world s) (dustRequest E docOf page))) of
                     Inl error \<Rightarrow> UpsertError (documentId E page) error
                   | Inr response \<Rightarrow> Upserted (documentId E page))]\<rparr>)"
  by (simp add: upsertToDustDatasource_def limitedDustApiPost_def emit_def
      split: prod.splits sum.splits)

lemma upserted_append:
  "upserted E docOf (xs @ ys) s = upserted E docOf ys (upserted E docOf xs s)"
  by (induction xs arbitrary: s) (simp_all add: upserted.simps)

lemma posts_upserted:
  "posts (trace (upserted E docOf ps s)) = posts (trace s) @ map (dustRequest E docOf) ps"
  by (induction ps arbitrary: s) (simp_all add: upserted.simps upsert_result posts_append)

lemma gets_upserted: "gets (trace (upserted E docOf ps s)) = gets (trace s)"
  by (induction ps arbitrary: s) (simp_all add: upserted.simps upsert_result gets_append)

lemma sleeps_upserted: "sleeps (trace (upserted E docOf ps s)) = sleeps (trace s)"
  by (induction ps arbitrary: s) (simp_all add: upserted.simps upsert_result sleeps_append)

lemma deliveries_upserted:
  "deliveries (trace (upserted E docOf ps s)) = deliveries (trace s) @ writes E docOf ps"
  by (induction ps arbitrary: s) (simp_all add: upserted.simps upsert_result deliveries_append writes_def)

lemma promiseAll_upserted:
  "promiseAll_upserts E docOf batch s = (Inr (), upserted E docOf batch s)"
  by (induction batch arbitrary: s) (simp_all add: upserted.simps upsert_result split: prod.splits)

lemma processPages_ts_upserted:
  "processPages_ts E docOf ps s = (Inr (), upserted E docOf (flattenPages ps) s)"
proof (induction E docOf ps s rule: processPages_ts.induct)
  case (1 E docOf s)
  show ?case by (simp add: upserted.simps)
next
  case (2 E docOf w d i a n c par sub cr up rest s)
  define page where "page = ClickUpPage w d i a n c par sub cr up"
  define s1 where "s1 = (if syncable page then snd (upsertToDustDatasource E docOf page s) else s)"
  define s2 where "s2 = upserted E docOf (flattenPages sub) s1"
  have sub: "pages page = sub"
    by (simp add: page_def)
  have first:
    "(if content page \<noteq> [] \<and> trim (content page) \<noteq> []
      then (if \<not> archived page then upsertToDustDatasource E docOf page s else (Inr (), s))
      else (Inr (), s)) = (Inr (), s1)"
    by (auto simp: s1_def syncable_def upsert_result)
  have below: "(if sub \<noteq> [] then processPages_ts E docOf sub s1 else (Inr (), s1)) = (Inr (), s2)"
    using "2.IH"(1) [OF page_def first [symmetric] refl] by (simp add: s2_def upserted.simps)
  have after: "processPages_ts E docOf rest s2 = (Inr (), upserted E docOf (flattenPages rest) s2)"
    using "2.IH"(2) [OF page_def first [symmetric] refl below [symmetric] refl] .
  have "processPages_ts E docOf (page # rest) s = processPages_ts E docOf rest s2"
    apply (simp only: page_def processPages_ts.simps Let_def)
    apply (fold page_def)
    apply (simp only: first below prod.case sum.case)
    done
  moreover have "upserted E docOf (flattenPages (page # rest)) s = upserted E docOf (flattenPages rest) s2"
    using sub by (simp add: flattenPages_Cons upserted_append upserted.simps s2_def s1_def)
  ultimately show ?case using after by (simp add: page_def)
qed

lemma processPages_p2_loop_upserted:
  "processPages_p2_loop E ps k s =
     (Inr (k + length (flattenPages ps)), upserted E doc_id (flattenPages ps) s)"
proof (induction E ps k s rule: processPages_p2_loop.induct)
  case (1 E k s)
  show ?case by (simp add: upserted.simps)
next
  case (2 E w d i a n c par sub cr up rest k s)
  define page where "page = ClickUpPage w d i a n c par sub cr up"
  define s1 where "s1 = (if syncable page then snd (upsertToDustDatasource E doc_id page s) else s)"
  define k1 where "k1 = (if syncable page then k + 1 else k)"
  define s2 where "s2 = upserted E doc_id (flattenPages sub) s1"
  define k2 where "k2 = k1 + length (flattenPages sub)"
  have sub: "pages page = sub"
    by (simp add: page_def)
  have first:
    "(if content page \<noteq> [] \<and> trim (content page) \<noteq> []
      then (if \<not> archived page
            then (case upsertToDustDatasource E doc_id page s of
                    (Inl error, s1) \<Rightarrow> (Inl error, s1)
                  | (Inr u, s1) \<Rightarrow> (Inr (k + 1), s1))
            else (Inr k, s))
      else (Inr k, s)) = (Inr k1, s1)"
    by (auto simp: s1_def k1_def syncable_def upsert_result)
  have below:
    "(if sub \<noteq> []
      then (case processPages_p2_loop E sub 0 s1 of
              (Inl error, s2) \<Rightarrow> (Inl error, s2)
            | (Inr below, s2) \<Rightarrow> (Inr (k1 + below), s2))
      else (Inr k1, s1)) = (Inr k2, s2)"
    using "2.IH"(1) [OF page_def first [symmetric] refl] by (simp add: s2_def k2_def upserted.simps)
  have after:
    "processPages_p2_loop E rest k2 s2 =
       (Inr (k2 + length (flattenPages rest)), upserted E doc_id (flattenPages rest) s2)"
    using "2.IH"(2) [OF page_def first [symmetric] refl below [symmetric] refl] .
  have "processPages_p2_loop E (page # rest) k s = processPages_p2_loop E rest k2 s2"
    apply (simp only: page_def processPages_p2_loop.simps Let_def)
    apply (fold page_def)
    apply (simp only: first below prod.case sum.case)
    done
  moreover have "upserted E doc_id (flattenPages (page # rest)) s = upserted E doc_id (flattenPages rest) s2"
    using sub by (simp add: flattenPages_Cons upserted_append upserted.simps s2_def s1_def)
  moreover have "k + length (flattenPages (page # rest)) = k2 + length (flattenPages rest)"
    using sub by (simp add: flattenPages_Cons k2_def k1_def)
  ultimately show ?case using after by (simp add: page_def)
qed

lemma processPages_p2_upserted:
  "processPages_p2 E ps s = (Inr (length (flattenPages ps)), upserted E doc_id (flattenPages ps) s)"
  by (simp add: processPages_p2_def processPages_p2_loop_upserted)

lemma trace_upserted:
  "trace (upserted E docOf ps s) = trace s @ isolated_writes E docOf ps (world s)"
proof (induction ps arbitrary: s)
  case Nil
  show ?case by (simp add: upserted.simps isolated_writes.simps)
next
  case (Cons page rest)
  obtain r w where d: "dust E (world s) (dustRequest E docOf page) = (r, w)"
    by (cases "dust E (world s) (dustRequest E docOf page)")
  show ?case
    by (cases r)
       (simp_all add: upserted.simps isolated_writes.simps upsert_result Cons.IH d settle_def
          validateStatus_default_def)
qed

lemma posts_isolated_writes:
  "posts (isolated_writes E docOf cs w) = map (dustRequest E docOf) cs"
  by (induction cs arbitrary: w) (simp_all add: isolated_writes.simps posts_append split: prod.splits)

lemma outcomes_isolated_writes:
  "length (successes (isolated_writes E docOf cs w)) + length (failures (isolated_writes E docOf cs w))
     = length cs"
  by (induction cs arbitrary: w)
     (simp_all add: isolated_writes.simps successes_append failures_append
        split: prod.splits http_reply.splits)

lemma failures_isolated_writes:
  "fst ` set (failures (isolated_writes E docOf cs w)) \<subseteq> documentId E ` set cs"
  by (induction cs arbitrary: w)
     (auto simp add: isolated_writes.simps failures_append split: prod.splits http_reply.splits if_splits)

section \<open>The example tree\<close>

lemma example_children:
  "pages page_a = [page_d]" "pages page_b = []" "pages page_c = [page_e]"
  "pages page_d = []" "pages page_e = []"
  by (simp_all add: page_a_def page_b_def page_c_def page_d_def page_e_def example_page_def)

lemma example_syncable:
  "syncable page_a" "\<not> syncable page_b" "\<not> syncable page_c" "syncable page_d" "syncable page_e"
  by (simp_all add: syncable_def page_a_def page_b_def page_c_def page_d_def page_e_def
      example_page_def js_def trim_def isWhiteSpace_def)

lemma walk_example: "walk example_tree = [page_a, page_d, page_b, page_c, page_e]"
  by (simp add: example_tree_def walk_Cons example_children)

lemma flattenPages_example: "flattenPages example_tree = [page_a, page_d, page_e]"
  by (simp add: flattenPages_walk walk_example example_syncable)

section \<open>Filter correctness\<close>

text \<open>
  Claim C1. The pages \<open>flattenPages\<close> returns are the pages of the tree, in the order of
  the walk, whose trimmed content is not empty and which are not archived. The
  candidates below any page of the tree, excluded or not, are among them: the walk goes
  below every page. The \<open>processPages\<close> that upserts while it walks (in
  \<open>clickup-docs-to-dust.ts\<close>; the counting one of \<open>part_002\<close> alike) sends one request
  for each of these pages, in this order, and no other.
\<close>

theorem flattenPages_filter_correct:
  "flattenPages ps = filter (\<lambda>page. trim (content page) \<noteq> [] \<and> \<not> archived page) (walk ps)
   \<and> (\<forall>page \<in> set (walk ps). set (flattenPages (pages page)) \<subseteq> set (flattenPages ps))
   \<and> posts (trace (snd (processPages_ts E docOf ps s)))
       = posts (trace s) @ map (dustRequest E docOf) (flattenPages ps)
   \<and> posts (trace (snd (processPages_p2 E ps s)))
       = posts (trace s) @ map (dustRequest E doc_id) (flattenPages ps)"
proof -
  have "syncable = (\<lambda>page. trim (content page) \<noteq> [] \<and> \<not> archived page)"
    by (rule ext) (rule syncable_iff)
  then have "flattenPages ps = filter (\<lambda>page. trim (content page) \<noteq> [] \<and> \<not> archived page) (walk ps)"
    using flattenPages_walk [of ps] by simp
  moreover have "set (flattenPages (pages page)) \<subseteq> set (flattenPages ps)"
    if "page \<in> set (walk ps)" for page
    using walk_closed [OF that] by (auto simp: flattenPages_walk)
  ultimately show ?thesis
    by (simp add: processPages_ts_upserted processPages_p2_upserted posts_upserted)
qed

theorem flattenPages_filter_correct_witness:
  "flattenPages example_tree = [page_a, page_d, page_e]
   \<and> filter (\<lambda>page. trim (content page) \<noteq> [] \<and> \<not> archived page) (walk example_tree)
       = [page_a, page_d, page_e]
   \<and> page_c \<in> set (walk example_tree) \<and> archived page_c
   \<and> set (flattenPages (pages page_c)) \<subseteq> set (flattenPages example_tree)
   \<and> posts (trace (snd (processPages_ts (example_env source_down failing_first) doc_id example_tree start)))
       = map (dustRequest (example_env source_down failing_first) doc_id) [page_a, page_d, page_e]"
proof -
  let ?E = "example_env source_down failing_first"
  note facts = flattenPages_filter_correct [of example_tree ?E doc_id start]
  have c: "page_c \<in> set (walk example_tree)"
    by (simp add: walk_example)
  have a: "archived page_c"
    by (simp add: page_c_def example_page_def)
  from facts have 1:
    "filter (\<lambda>page. trim (content page) \<noteq> [] \<and> \<not> archived page) (walk example_tree)
       = flattenPages example_tree"
    by simp
  from facts c have 2: "set (flattenPages (pages page_c)) \<subseteq> set (flattenPages example_tree)"
    by blast
  from facts have 3:
    "posts (trace (snd (processPages_ts ?E doc_id example_tree start)))
       = posts (trace start) @ map (dustRequest ?E doc_id) (flattenPages example_tree)"
    by blast
  have "posts (trace start) = []"
    by (simp add: start_def)
  with 1 2 3 c a show ?thesis
    by (simp only: flattenPages_example append_Nil simp_thms)
qed

section \<open>The batches\<close>

lemma chunks_Nil_iff: "chunks n xs = [] \<longleftrightarrow> xs = [] \<or> n = 0"
  by (subst chunks.simps) simp

lemma chunks_Nil: "chunks n [] = []"
  by (simp add: chunks_Nil_iff)

lemma chunks_step: "xs \<noteq> [] \<Longrightarrow> 0 < n \<Longrightarrow> chunks n xs = take n xs # chunks n (drop n xs)"
  by (subst chunks.simps) simp

lemma concat_chunks: "0 < n \<Longrightarrow> concat (chunks n xs) = xs"
proof (induction n xs rule: chunks.induct)
  case (1 n xs)
  show ?case
  proof (cases "xs = []")
    case True
    then show ?thesis by (simp add: chunks_Nil)
  next
    case False
    with "1.prems" "1.IH" show ?thesis by (simp add: chunks_step)
  qed
qed

lemma chunks_sizes: "0 < n \<Longrightarrow> b \<in> set (chunks n xs) \<Longrightarrow> b \<noteq> [] \<and> length b \<le> n"
proof (induction n xs rule: chunks.induct)
  case (1 n xs)
  show ?case
  proof (cases "xs = []")
    case True
    with "1.prems" show ?thesis by (simp add: chunks_Nil)
  next
    case False
    with "1.prems" "1.IH" show ?thesis by (auto simp: chunks_step)
  qed
qed

lemma chunks_full: "0 < n \<Longrightarrow> b \<in> set (butlast (chunks n xs)) \<Longrightarrow> length b = n"
proof (induction n xs rule: chunks.induct)
  case (1 n xs)
  show ?case
  proof (cases "xs = []")
    case True
    with "1.prems" show ?thesis by (simp add: chunks_Nil)
  next
    case False
    show ?thesis
    proof (cases "drop n xs = []")
      case True
      with False "1.prems" show ?thesis by (simp add: chunks_step chunks_Nil)
    next
      case more: False
      then have "chunks n (drop n xs) \<noteq> []" "n < length xs"
        using "1.prems"(1) by (simp_all add: chunks_Nil_iff)
      with False "1.prems" "1.IH" show ?thesis by (auto simp: chunks_step)
    qed
  qed
qed

lemma pauses_Cons: "pauses (b # bs) = b @ (if bs = [] then [] else Sleep 1000 # pauses bs)"
  by (cases bs) simp_all

lemma posts_deliveries: "posts (deliveries tr) = posts tr"
  by (induction tr rule: deliveries.induct) simp_all

lemma posts_writes: "posts (writes E docOf batch) = map (dustRequest E docOf) batch"
  by (induction batch) (simp_all add: writes_def)

lemma posts_pauses: "posts (pauses (map (writes E docOf) bs)) = map (dustRequest E docOf) (concat bs)"
  by (induction bs) (simp_all add: pauses_Cons posts_append posts_writes)

lemma processPages_p0_loop_deliveries:
  "0 < b \<Longrightarrow>
   \<exists>s'. processPages_p0_loop E allPages b i s = Some (Inr (), s')
      \<and> deliveries (trace s') =
          deliveries (trace s)
          @ pauses (map (writes E (\<lambda>page. CLICKUP_DOC_ID E)) (chunks b (drop i allPages)))"
proof (induction E allPages b i s rule: processPages_p0_loop.induct)
  case (1 E allPages b i s)
  let ?docOf = "\<lambda>page. CLICKUP_DOC_ID E"
  show ?case
  proof (cases "i < length allPages")
    case False
    then have "chunks b (drop i allPages) = []"
      by (simp add: chunks_Nil_iff)
    with False show ?thesis
      by (subst processPages_p0_loop.simps) simp
  next
    case True
    define batch where "batch = take b (drop i allPages)"
    define s1 where "s1 = upserted E ?docOf batch s"
    define s2 where "s2 = (if i + b < length allPages then emit (Sleep 1000) s1 else s1)"
    have b: "b \<noteq> 0" using "1.prems" by simp
    have run: "promiseAll_upserts E ?docOf batch s = (Inr (), s1)"
      by (simp add: promiseAll_upserted s1_def)
    from "1.IH" [OF True b batch_def run [symmetric] refl "1.prems"]
    obtain s' where s': "processPages_p0_loop E allPages b (i + b) s2 = Some (Inr (), s')"
      and tr: "deliveries (trace s') = deliveries (trace s2)
                 @ pauses (map (writes E ?docOf) (chunks b (drop (i + b) allPages)))"
      unfolding s2_def by blast
    have step: "processPages_p0_loop E allPages b i s = processPages_p0_loop E allPages b (i + b) s2"
      using True b run
      by (subst processPages_p0_loop.simps) (simp add: batch_def [symmetric] s2_def Let_def)
    have ne: "drop i allPages \<noteq> []" using True by simp
    have ch: "chunks b (drop i allPages) = batch # chunks b (drop (i + b) allPages)"
      using chunks_step [OF ne "1.prems"] by (simp add: batch_def add.commute)
    have more: "chunks b (drop (i + b) allPages) = [] \<longleftrightarrow> \<not> i + b < length allPages"
      using "1.prems" by (auto simp: chunks_Nil_iff)
    have "deliveries (trace s2) = deliveries (trace s) @ writes E ?docOf batch
            @ (if i + b < length allPages then [Sleep 1000] else [])"
      by (simp add: s2_def s1_def emit_def deliveries_append deliveries_upserted)
    with tr more have "deliveries (trace s') = deliveries (trace s)
            @ pauses (map (writes E ?docOf) (chunks b (drop i allPages)))"
      by (cases "i + b < length allPages") (simp_all add: ch pauses_Cons)
    with s' step show ?thesis by simp
  qed
qed

lemma dustRequest_dust_update: "dustRequest (E\<lparr>dust := d\<rparr>) = dustRequest E"
  by (intro ext) (simp add: dustRequest_def documentId_def generateSlug_def)

lemma writes_dust_update: "writes (E\<lparr>dust := d\<rparr>) = writes E"
  by (intro ext) (simp add: writes_def dustRequest_dust_update)

section \<open>More examples\<close>

lemma flattenPages_seven: "flattenPages seven_pages = seven_pages"
  by (simp add: seven_pages_def flattenPages_Cons syncable_def example_page_def js_def trim_def
      isWhiteSpace_def)

lemma chunks_seven: "chunks 5 seven_pages = [take 5 seven_pages, drop 5 seven_pages]"
proof -
  have "seven_pages \<noteq> []" "drop 5 seven_pages \<noteq> []" "drop 5 (drop 5 seven_pages) = []"
    by (simp_all add: seven_pages_def)
  then show ?thesis
    using chunks_step [of seven_pages 5] chunks_step [of "drop 5 seven_pages" 5]
    by (simp add: chunks_Nil)
qed

lemma example_env_sel:
  "clickup (example_env source destination) w req = (source req (fst w), (Suc (fst w), snd w))"
  "dust (example_env source destination) w post = (destination post (snd w), (fst w, Suc (snd w)))"
  "slugify (example_env source destination) title = title"
  "CLICKUP_WORKSPACE_ID (example_env source destination) = js ''ws''"
  "CLICKUP_DOC_ID (example_env source destination) = js ''doc''"
  by (simp_all add: example_env_def)

lemma settle_examples:
  "settle validateStatus_default (Response 200 data) = Inr data"
  "settle validateStatus_default (Response 500 data) = Inl (AxiosError (Some 500))"
  "settle validateStatus_default (Response 503 data) = Inl (AxiosError (Some 503))"
  "settle validateStatus_default (Response 404 data) = Inl (AxiosError (Some 404))"
  "settle validateStatus_ts (Response 200 data) = Inr data"
  "settle validateStatus_ts (Response 404 data) = Inr data"
  "settle validateStatus_ts (Response 503 data) = Inl (AxiosError (Some 503))"
  by (simp_all add: settle_def validateStatus_default_def validateStatus_ts_def)

section \<open>Identifier derivation\<close>

text \<open>
  Claim C6. The identifier of the destination document is the identifier of the page,
  a hyphen and the slug of its title, the slug being the value of a function of the
  title alone; it ends the address of the one request the upsert of the page sends. Two
  pages with the same identifier and the same title have the same destination
  identifier and are written to the same address, whatever else differs between them.
\<close>

theorem documentId_deterministic:
  "documentId E page = page_id page @ js ''-'' @ generateSlug E (name page)
   \<and> generateSlug E (name page) = slugify E (name page)
   \<and> url (dustRequest E docOf page)
       = js ''/w/'' @ DUST_WORKSPACE_ID E @ js ''/vaults/'' @ DUST_VAULT_ID E
         @ js ''/data_sources/'' @ DUST_DATASOURCE_ID E @ js ''/documents/'' @ documentId E page
   \<and> posts (trace (snd (upsertToDustDatasource E docOf page s)))
       = posts (trace s) @ [dustRequest E docOf page]
   \<and> (page_id page = page_id page' \<and> name page = name page'
        \<longrightarrow> documentId E page = documentId E page'
            \<and> url (dustRequest E docOf page) = url (dustRequest E docOf' page'))"
proof -
  have ident: "documentId E page = page_id page @ js ''-'' @ generateSlug E (name page)"
    by (simp add: documentId_def)
  have slug: "generateSlug E (name page) = slugify E (name page)"
    by (simp add: generateSlug_def)
  have address: "url (dustRequest E docOf q)
       = js ''/w/'' @ DUST_WORKSPACE_ID E @ js ''/vaults/'' @ DUST_VAULT_ID E
         @ js ''/data_sources/'' @ DUST_DATASOURCE_ID E @ js ''/documents/'' @ documentId E q"
    for docOf q
    by (simp add: dustRequest_def)
  have sent: "posts (trace (snd (upsertToDustDatasource E docOf page s)))
       = posts (trace s) @ [dustRequest E docOf page]"
    by (simp add: upsert_result posts_append)
  have same: "documentId E page = documentId E page'"
    if "page_id page = page_id page'" and "name page = name page'"
    using that by (simp add: documentId_def)
  from ident slug address [of docOf page] sent same show ?thesis
    by (simp add: address)
qed

theorem documentId_deterministic_witness:
  "page_id page_a = page_id (example_page ''a'' ''alpha'' ''rewritten'' True [])
   \<and> name page_a = name (example_page ''a'' ''alpha'' ''rewritten'' True [])
   \<and> documentId (example_env source_down accepting) page_a = js ''a-alpha''
   \<and> documentId (example_env source_down accepting) (example_page ''a'' ''alpha'' ''rewritten'' True [])
       = js ''a-alpha''"
proof -
  let ?E = "example_env source_down accepting"
  let ?q = "example_page ''a'' ''alpha'' ''rewritten'' True []"
  have same: "page_id page_a = page_id ?q \<and> name page_a = name ?q"
    by (simp add: page_a_def example_page_def)
  from documentId_deterministic [of ?E page_a doc_id start ?q doc_id]
  have "documentId ?E page_a = page_id page_a @ js ''-'' @ generateSlug ?E (name page_a)"
    and "generateSlug ?E (name page_a) = slugify ?E (name page_a)"
    and "page_id page_a = page_id ?q \<and> name page_a = name ?q \<longrightarrow> documentId ?E page_a = documentId ?E ?q"
    by blast+
  with same show ?thesis
    by (simp add: page_a_def example_page_def example_env_sel js_def)
qed

section \<open>The upsert\<close>

text \<open>
  Claim C8. One call of \<open>upsertToDustDatasource\<close> sends exactly one request to the
  destination, whatever the reply: it returns normally with the trace extended by that
  request and one line of the console, which names the document and, when the write
  failed, the error. So no failure reaches the caller, and the requests and pauses of a
  run do not depend on how the destination replies: with any other destination the
  batched \<open>processPages\<close> (batches of five) and the walking one issue the same requests
  in the same order, with the same pauses.
\<close>

theorem upsert_single_write_isolated:
  "upsertToDustDatasource E docOf page s =
     (Inr (),
      \<lparr>world = snd (dust E (world s) (dustRequest E docOf page)),
       trace = trace s @
         [Post (dustRequest E docOf page),
          Console (case settle validateStatus_default (fst (dust E (world s) (dustRequest E docOf page))) of
                     Inl error \<Rightarrow> UpsertError (documentId E page) error
                   | Inr response \<Rightarrow> Upserted (documentId E page))]\<rparr>)
   \<and> map_option (\<lambda>r. (fst r, deliveries (trace (snd r)))) (processPages_p0 (E\<lparr>dust := d\<rparr>) ps 5 s)
       = map_option (\<lambda>r. (fst r, deliveries (trace (snd r)))) (processPages_p0 E ps 5 s)
   \<and> fst (processPages_ts (E\<lparr>dust := d\<rparr>) docOf ps s) = Inr ()
   \<and> deliveries (trace (snd (processPages_ts (E\<lparr>dust := d\<rparr>) docOf ps s)))
       = deliveries (trace (snd (processPages_ts E docOf ps s)))"
proof -
  let ?plan = "deliveries (trace s)
      @ pauses (map (writes E (\<lambda>page. CLICKUP_DOC_ID E)) (chunks 5 (flattenPages ps)))"
  obtain s1 where s1: "processPages_p0 E ps 5 s = Some (Inr (), s1)"
    and d1: "deliveries (trace s1) = ?plan"
    using processPages_p0_loop_deliveries [of 5 E "flattenPages ps" 0 s]
    by (auto simp: processPages_p0_def)
  obtain s2 where s2: "processPages_p0 (E\<lparr>dust := d\<rparr>) ps 5 s = Some (Inr (), s2)"
    and d2: "deliveries (trace s2) = ?plan"
    using processPages_p0_loop_deliveries [of 5 "E\<lparr>dust := d\<rparr>" "flattenPages ps" 0 s]
    by (auto simp: processPages_p0_def writes_dust_update)
  have "deliveries (trace (snd (processPages_ts (E\<lparr>dust := d\<rparr>) docOf ps s)))
       = deliveries (trace (snd (processPages_ts E docOf ps s)))"
    by (simp add: processPages_ts_upserted deliveries_upserted writes_dust_update)
  then show ?thesis
    by (simp add: upsert_result s1 s2 d1 d2 processPages_ts_upserted)
qed

theorem upsert_single_write_isolated_witness:
  "upsertToDustDatasource (example_env source_down failing_first) doc_id page_a start =
     (Inr (),
      \<lparr>world = (0, 1),
       trace = [Post (dustRequest (example_env source_down failing_first) doc_id page_a),
                Console (UpsertError (documentId (example_env source_down failing_first) page_a)
                           (AxiosError (Some 500)))]\<rparr>)
   \<and> posts (trace (snd (processPages_ts (example_env source_down failing_first) doc_id example_tree start)))
       = map (dustRequest (example_env source_down failing_first) doc_id) [page_a, page_d, page_e]"
proof -
  let ?E = "example_env source_down failing_first"
  from upsert_single_write_isolated [of ?E doc_id page_a start "dust ?E" example_tree]
  have "upsertToDustDatasource ?E doc_id page_a start =
     (Inr (),
      \<lparr>world = snd (dust ?E (world start) (dustRequest ?E doc_id page_a)),
       trace = trace start @
         [Post (dustRequest ?E doc_id page_a),
          Console (case settle validateStatus_default (fst (dust ?E (world start) (dustRequest ?E doc_id page_a))) of
                     Inl error \<Rightarrow> UpsertError (documentId ?E page_a) error
                   | Inr response \<Rightarrow> Upserted (documentId ?E page_a))]\<rparr>)"
    by blast
  then have 1: "upsertToDustDatasource ?E doc_id page_a start =
     (Inr (),
      \<lparr>world = (0, 1),
       trace = [Post (dustRequest ?E doc_id page_a),
                Console (UpsertError (documentId ?E page_a) (AxiosError (Some 500)))]\<rparr>)"
    by (simp add: start_def example_env_sel failing_first_def settle_examples)
  have 2: "posts (trace (snd (processPages_ts ?E doc_id example_tree start)))
       = map (dustRequest ?E doc_id) [page_a, page_d, page_e]"
    by (simp only: processPages_ts_upserted snd_conv posts_upserted flattenPages_example)
       (simp add: start_def)
  show ?thesis
    by (intro conjI) (rule 1, rule 2)
qed

section \<open>Batched delivery\<close>

text \<open>
  Claim C7. The batched \<open>processPages\<close>, called with its default batch size of five,
  returns normally, and the requests and pauses of its run are the writes of the first
  five candidates, a pause of one second, the writes of the next five, a pause, and so
  on to the last batch, after which there is no pause. The batches are the flattened
  list cut in order into pieces of five, the last piece holding what is left (at least
  one candidate). Hence every write of a batch precedes every write of the next batch,
  and a pause stands exactly between two consecutive batches.
\<close>

theorem batches_of_five_in_order:
  "map_option fst (processPages_p0 E ps 5 s) = Some (Inr ())
   \<and> map_option (\<lambda>r. deliveries (trace (snd r))) (processPages_p0 E ps 5 s)
       = Some (deliveries (trace s)
               @ pauses (map (writes E (\<lambda>page. CLICKUP_DOC_ID E)) (chunks 5 (flattenPages ps))))
   \<and> concat (chunks 5 (flattenPages ps)) = flattenPages ps
   \<and> (\<forall>b \<in> set (chunks 5 (flattenPages ps)). b \<noteq> [] \<and> length b \<le> 5)
   \<and> (\<forall>b \<in> set (butlast (chunks 5 (flattenPages ps))). length b = 5)"
proof -
  obtain s' where "processPages_p0 E ps 5 s = Some (Inr (), s')"
    and "deliveries (trace s') =
          deliveries (trace s) @ pauses (map (writes E (\<lambda>page. CLICKUP_DOC_ID E)) (chunks 5 (flattenPages ps)))"
    using processPages_p0_loop_deliveries [of 5 E "flattenPages ps" 0 s]
    by (auto simp: processPages_p0_def)
  moreover have "concat (chunks 5 (flattenPages ps)) = flattenPages ps"
    by (simp add: concat_chunks)
  moreover have "b \<noteq> [] \<and> length b \<le> 5" if "b \<in> set (chunks 5 (flattenPages ps))" for b
    using chunks_sizes [OF _ that] by simp
  moreover have "length b = 5" if "b \<in> set (butlast (chunks 5 (flattenPages ps)))" for b
    using chunks_full [OF _ that] by simp
  ultimately show ?thesis by simp
qed

theorem batches_of_five_in_order_witness:
  "chunks 5 (flattenPages seven_pages) = [take 5 seven_pages, drop 5 seven_pages]
   \<and> take 5 seven_pages \<in> set (butlast (chunks 5 (flattenPages seven_pages)))
   \<and> length (take 5 seven_pages) = 5
   \<and> drop 5 seven_pages \<in> set (chunks 5 (flattenPages seven_pages))
   \<and> length (drop 5 seven_pages) = 2
   \<and> map_option (\<lambda>r. deliveries (trace (snd r)))
        (processPages_p0 (example_env source_down failing_first) seven_pages 5 start)
       = Some (writes (example_env source_down failing_first) (\<lambda>page. js ''doc'') (take 5 seven_pages)
               @ Sleep 1000
               # writes (example_env source_down failing_first) (\<lambda>page. js ''doc'') (drop 5 seven_pages))"
proof -
  let ?E = "example_env source_down failing_first"
  note facts = batches_of_five_in_order [of ?E seven_pages start]
  have ch: "chunks 5 (flattenPages seven_pages) = [take 5 seven_pages, drop 5 seven_pages]"
    by (simp add: flattenPages_seven chunks_seven)
  have m1: "take 5 seven_pages \<in> set (butlast (chunks 5 (flattenPages seven_pages)))"
    and m2: "drop 5 seven_pages \<in> set (chunks 5 (flattenPages seven_pages))"
    by (simp_all add: ch)
  from facts m1 have 1: "length (take 5 seven_pages) = 5" by blast
  from facts m2 have "length (drop 5 seven_pages) \<le> 5" by blast
  then have 2: "length (drop 5 seven_pages) = 2" by (simp add: seven_pages_def)
  from facts have "map_option (\<lambda>r. deliveries (trace (snd r))) (processPages_p0 ?E seven_pages 5 start)
       = Some (deliveries (trace start)
               @ pauses (map (writes ?E (\<lambda>page. CLICKUP_DOC_ID ?E)) (chunks 5 (flattenPages seven_pages))))"
    by blast
  then have 3: "map_option (\<lambda>r. deliveries (trace (snd r))) (processPages_p0 ?E seven_pages 5 start)
       = Some (writes ?E (\<lambda>page. js ''doc'') (take 5 seven_pages)
               @ Sleep 1000 # writes ?E (\<lambda>page. js ''doc'') (drop 5 seven_pages))"
    by (simp add: ch start_def example_env_sel)
  show ?thesis
    by (intro conjI) (rule ch, rule m1, rule 1, rule m2, rule 2, rule 3)
qed

section \<open>Failure isolation\<close>

lemma main_p2_returns: "fst (main_p2 E s) = Inr ()"
  by (simp add: main_p2_def split: prod.splits sum.splits)

lemma main_ts_returns: "fst (main_ts E s) = Inr ()"
  by (simp add: main_ts_def split: prod.splits sum.splits)

lemma upserted_example_failing_first:
  "upserted (example_env source failing_first) doc_id [page_a, page_d, page_e] \<lparr>world = (g, 0), trace = tr\<rparr>
     = \<lparr>world = (g, 3),
        trace = tr @
          [Post (dustRequest (example_env source failing_first) doc_id page_a),
           Console (UpsertError (documentId (example_env source failing_first) page_a) (AxiosError (Some 500))),
           Post (dustRequest (example_env source failing_first) doc_id page_d),
           Console (Upserted (documentId (example_env source failing_first) page_d)),
           Post (dustRequest (example_env source failing_first) doc_id page_e),
           Console (Upserted (documentId (example_env source failing_first) page_e))]\<rparr>"
  by (simp add: upserted.simps upsert_result example_env_sel failing_first_def settle_examples)

lemma main_p2_example:
  "main_p2 (example_env source_one_doc failing_first) start =
     (Inr (),
      emit (Console (TotalUpserted 3))
        (emit (Console (DocProcessed (js ''doc'')))
           (upserted (example_env source_one_doc failing_first) doc_id [page_a, page_d, page_e]
              \<lparr>world = (2, 0),
               trace = [Get (docs_request (example_env source_one_doc failing_first)),
                        Get (pages_request (example_env source_one_doc failing_first) (js ''doc'') (- 1))]\<rparr>)))"
proof -
  let ?E = "example_env source_one_doc failing_first"
  have docs: "getAllDocs_p2 ?E start =
      (Inr [js ''doc''], \<lparr>world = (Suc 0, 0), trace = [Get (docs_request ?E)]\<rparr>)"
    by (simp add: getAllDocs_p2_def clickupApi_get_def start_def example_env_sel source_one_doc_def
        docs_request_def settle_examples)
  have fetch: "getClickUpPages_p2 ?E (js ''doc'') \<lparr>world = (Suc 0, 0), trace = [Get (docs_request ?E)]\<rparr> =
      (Inr (JArray example_tree),
       \<lparr>world = (2, 0), trace = [Get (docs_request ?E), Get (pages_request ?E (js ''doc'') (- 1))]\<rparr>)"
    by (simp add: getClickUpPages_p2_def clickupApi_get_def example_env_sel source_one_doc_def
        pages_request_def settle_examples)
  show ?thesis
    by (simp add: main_p2_def docs fetch processPages_p2_data_def processPages_p2_upserted
        flattenPages_example numeral_3_eq_3)
qed

lemma isolated_writes_example_failing_first:
  "isolated_writes (example_env source failing_first) doc_id [page_a, page_d, page_e] (g, 0)
     = [Post (dustRequest (example_env source failing_first) doc_id page_a),
        Console (UpsertError (documentId (example_env source failing_first) page_a) (AxiosError (Some 500))),
        Post (dustRequest (example_env source failing_first) doc_id page_d),
        Console (Upserted (documentId (example_env source failing_first) page_d)),
        Post (dustRequest (example_env source failing_first) doc_id page_e),
        Console (Upserted (documentId (example_env source failing_first) page_e))]"
  by (simp add: isolated_writes.simps example_env_sel failing_first_def)

lemma main_p2_one_document:
  assumes "getAllDocs_p2 E s = (Inr [docId], s1)"
    and "getClickUpPages_p2 E docId s1 = (Inr (JArray ps), s2)"
  shows "main_p2 E s =
           (Inr (),
            \<lparr>world = world (upserted E doc_id (flattenPages ps) s2),
             trace = trace s2 @ isolated_writes E doc_id (flattenPages ps) (world s2)
               @ [Console (DocProcessed docId), Console (TotalUpserted (length (flattenPages ps)))]\<rparr>)"
  by (simp add: main_p2_def assms processPages_p2_data_def processPages_p2_upserted emit_def
      trace_upserted)

text \<open>
  Claim C2, as stated, fails. The example tree has three candidates and the destination
  fails the first write only; \<open>processPages\<close> of \<open>part_002\<close> returns 3 and \<open>main\<close>
  reports 3, not 2. The failure is a line of the console, and \<open>main\<close> returns nothing.
\<close>

theorem count_includes_failed_write_counterexample:
  "length (flattenPages example_tree) = 3
   \<and> failures (trace (snd (processPages_p2 (example_env source_one_doc failing_first) example_tree start)))
       = [(documentId (example_env source_one_doc failing_first) page_a, AxiosError (Some 500))]
   \<and> fst (processPages_p2 (example_env source_one_doc failing_first) example_tree start) = Inr 3
   \<and> fst (processPages_p2 (example_env source_one_doc failing_first) example_tree start)
       \<noteq> Inr (length (flattenPages example_tree) - 1)
   \<and> last (trace (snd (main_p2 (example_env source_one_doc failing_first) start)))
       = Console (TotalUpserted 3)
   \<and> fst (main_p2 (example_env source_one_doc failing_first) start) = Inr ()"
proof -
  let ?E = "example_env source_one_doc failing_first"
  have "last (trace (snd (main_p2 ?E start))) = Console (TotalUpserted 3)"
    by (simp add: main_p2_example emit_def)
  moreover have "failures (trace (snd (processPages_p2 ?E example_tree start)))
       = [(documentId ?E page_a, AxiosError (Some 500))]"
    by (simp add: processPages_p2_upserted flattenPages_example start_def
        upserted_example_failing_first)
  moreover have "fst (main_p2 ?E start) = Inr ()"
    by (rule main_p2_returns)
  ultimately show ?thesis
    by (simp add: processPages_p2_upserted flattenPages_example)
qed

text \<open>
  Claim C2, amended. For every tree, with its \<open>N\<close> candidates, and every behaviour of
  the destination, \<open>processPages\<close> of \<open>part_002\<close> returns normally, and what it adds to
  the trace are the isolated writes of the candidates: every candidate is written once,
  in the order of the walk, also after a write that failed, and each write leaves one
  line on the console, that the document was upserted or the error of the write with
  the identifier of the document. So when exactly one write fails, \<open>N - 1\<close> documents
  are logged as upserted and one as failed, under the identifier of a candidate. There
  is no list of failures: the console is the only record. \<open>main\<close>, for a workspace of
  one document with this tree, adds the same writes to the trace, then logs that the
  document was processed and a total, and returns normally; no error leaves \<open>main\<close> in
  any environment. The number that \<open>processPages\<close> returns and \<open>main\<close> reports is not
  part of this statement.
\<close>

theorem failed_write_logged_run_continues:
  "(\<exists>n. fst (processPages_p2 E ps s) = Inr n)
   \<and> trace (snd (processPages_p2 E ps s))
       = trace s @ isolated_writes E doc_id (flattenPages ps) (world s)
   \<and> posts (isolated_writes E doc_id (flattenPages ps) w) = map (dustRequest E doc_id) (flattenPages ps)
   \<and> (length (failures (isolated_writes E doc_id (flattenPages ps) w)) = 1 \<longrightarrow>
        length (successes (isolated_writes E doc_id (flattenPages ps) w)) = length (flattenPages ps) - 1)
   \<and> fst ` set (failures (isolated_writes E doc_id (flattenPages ps) w))
        \<subseteq> documentId E ` set (flattenPages ps)
   \<and> (getAllDocs_p2 E s = (Inr [docId], s1) \<and> getClickUpPages_p2 E docId s1 = (Inr (JArray ps), s2) \<longrightarrow>
        (\<exists>n w'. main_p2 E s =
           (Inr (),
            \<lparr>world = w',
             trace = trace s2 @ isolated_writes E doc_id (flattenPages ps) (world s2)
               @ [Console (DocProcessed docId), Console (TotalUpserted n)]\<rparr>)))
   \<and> fst (main_p2 E s) = Inr ()"
proof -
  let ?candidates = "flattenPages ps"
  let ?log = "isolated_writes E doc_id ?candidates w"
  have run: "processPages_p2 E ps s = (Inr (length ?candidates), upserted E doc_id ?candidates s)"
    by (rule processPages_p2_upserted)
  have returns: "\<exists>n. fst (processPages_p2 E ps s) = Inr n"
    by (simp add: run)
  have log: "trace (snd (processPages_p2 E ps s)) = trace s @ isolated_writes E doc_id ?candidates (world s)"
    by (simp add: run trace_upserted)
  have all_sent: "posts ?log = map (dustRequest E doc_id) ?candidates"
    by (rule posts_isolated_writes)
  have "length (successes ?log) + length (failures ?log) = length ?candidates"
    by (rule outcomes_isolated_writes)
  then have one: "length (failures ?log) = 1 \<longrightarrow> length (successes ?log) = length ?candidates - 1"
    by arith
  have whose: "fst ` set (failures ?log) \<subseteq> documentId E ` set ?candidates"
    by (rule failures_isolated_writes)
  have main: "\<exists>n w'. main_p2 E s =
           (Inr (),
            \<lparr>world = w',
             trace = trace s2 @ isolated_writes E doc_id ?candidates (world s2)
               @ [Console (DocProcessed docId), Console (TotalUpserted n)]\<rparr>)"
    if "getAllDocs_p2 E s = (Inr [docId], s1)" and "getClickUpPages_p2 E docId s1 = (Inr (JArray ps), s2)"
    using main_p2_one_document [OF that] by blast
  have escapes: "fst (main_p2 E s) = Inr ()"
    by (rule main_p2_returns)
  from main have main': "getAllDocs_p2 E s = (Inr [docId], s1) \<and> getClickUpPages_p2 E docId s1 = (Inr (JArray ps), s2) \<longrightarrow>
        (\<exists>n w'. main_p2 E s =
           (Inr (),
            \<lparr>world = w',
             trace = trace s2 @ isolated_writes E doc_id ?candidates (world s2)
               @ [Console (DocProcessed docId), Console (TotalUpserted n)]\<rparr>))"
    by (intro impI) (elim conjE)
  show ?thesis
    by (intro conjI) (rule returns, rule log, rule all_sent, rule one, rule whose, rule main', rule escapes)
qed

theorem failed_write_logged_run_continues_witness:
  "getAllDocs_p2 (example_env source_one_doc failing_first) start
     = (Inr [js ''doc''],
        \<lparr>world = (1, 0), trace = [Get (docs_request (example_env source_one_doc failing_first))]\<rparr>)
   \<and> getClickUpPages_p2 (example_env source_one_doc failing_first) (js ''doc'')
        \<lparr>world = (1, 0), trace = [Get (docs_request (example_env source_one_doc failing_first))]\<rparr>
     = (Inr (JArray example_tree),
        \<lparr>world = (2, 0),
         trace = [Get (docs_request (example_env source_one_doc failing_first)),
                  Get (pages_request (example_env source_one_doc failing_first) (js ''doc'') (- 1))]\<rparr>)
   \<and> length (flattenPages example_tree) = 3
   \<and> length (failures (isolated_writes (example_env source_one_doc failing_first) doc_id
        (flattenPages example_tree) (2, 0))) = 1
   \<and> length (successes (isolated_writes (example_env source_one_doc failing_first) doc_id
        (flattenPages example_tree) (2, 0))) = 2
   \<and> posts (trace (snd (main_p2 (example_env source_one_doc failing_first) start)))
       = map (dustRequest (example_env source_one_doc failing_first) doc_id) [page_a, page_d, page_e]
   \<and> failures (trace (snd (main_p2 (example_env source_one_doc failing_first) start)))
       = [(documentId (example_env source_one_doc failing_first) page_a, AxiosError (Some 500))]
   \<and> successes (trace (snd (main_p2 (example_env source_one_doc failing_first) start)))
       = [documentId (example_env source_one_doc failing_first) page_d,
          documentId (example_env source_one_doc failing_first) page_e]
   \<and> fst (main_p2 (example_env source_one_doc failing_first) start) = Inr ()"
proof -
  let ?E = "example_env source_one_doc failing_first"
  let ?s1 = "\<lparr>world = (Suc 0, 0 :: nat), trace = [Get (docs_request ?E)]\<rparr>"
  let ?s2 = "\<lparr>world = (2 :: nat, 0 :: nat),
      trace = [Get (docs_request ?E), Get (pages_request ?E (js ''doc'') (- 1))]\<rparr>"
  let ?log = "isolated_writes ?E doc_id (flattenPages example_tree) (2, 0)"
  have docs: "getAllDocs_p2 ?E start = (Inr [js ''doc''], ?s1)"
    by (simp add: getAllDocs_p2_def clickupApi_get_def start_def example_env_sel source_one_doc_def
        docs_request_def settle_examples)
  have fetch: "getClickUpPages_p2 ?E (js ''doc'') ?s1 = (Inr (JArray example_tree), ?s2)"
    by (simp add: getClickUpPages_p2_def clickupApi_get_def example_env_sel source_one_doc_def
        pages_request_def settle_examples)
  have n: "length (flattenPages example_tree) = 3"
    by (simp add: flattenPages_example)
  have failed: "length (failures ?log) = 1"
    by (simp add: flattenPages_example isolated_writes_example_failing_first)
  note facts = failed_write_logged_run_continues
    [of ?E example_tree start "(2, 0)" "js ''doc''" ?s1 ?s2]
  from facts have "length (failures ?log) = 1 \<longrightarrow> length (successes ?log) = length (flattenPages example_tree) - 1"
    by (rule conjunct1 [OF conjunct2 [OF conjunct2 [OF conjunct2]]])
  with failed n have succeeded: "length (successes ?log) = 2"
    by simp
  from facts have "getAllDocs_p2 ?E start = (Inr [js ''doc''], ?s1)
      \<and> getClickUpPages_p2 ?E (js ''doc'') ?s1 = (Inr (JArray example_tree), ?s2) \<longrightarrow>
        (\<exists>n w'. main_p2 ?E start =
           (Inr (),
            \<lparr>world = w',
             trace = trace ?s2 @ isolated_writes ?E doc_id (flattenPages example_tree) (world ?s2)
               @ [Console (DocProcessed (js ''doc'')), Console (TotalUpserted n)]\<rparr>))"
    by (rule conjunct1 [OF conjunct2 [OF conjunct2 [OF conjunct2 [OF conjunct2 [OF conjunct2]]]]])
  with docs fetch obtain k w' where run: "main_p2 ?E start =
           (Inr (),
            \<lparr>world = w',
             trace = trace ?s2 @ isolated_writes ?E doc_id (flattenPages example_tree) (world ?s2)
               @ [Console (DocProcessed (js ''doc'')), Console (TotalUpserted k)]\<rparr>)"
    by blast
  have sent: "posts (trace (snd (main_p2 ?E start))) = map (dustRequest ?E doc_id) [page_a, page_d, page_e]"
    by (simp add: run flattenPages_example isolated_writes_example_failing_first)
  have lost: "failures (trace (snd (main_p2 ?E start))) = [(documentId ?E page_a, AxiosError (Some 500))]"
    by (simp add: run flattenPages_example isolated_writes_example_failing_first)
  have kept: "successes (trace (snd (main_p2 ?E start))) = [documentId ?E page_d, documentId ?E page_e]"
    by (simp add: run flattenPages_example isolated_writes_example_failing_first)
  from facts have returns: "fst (main_p2 ?E start) = Inr ()"
    by simp
  have docs': "getAllDocs_p2 ?E start = (Inr [js ''doc''], \<lparr>world = (1, 0), trace = [Get (docs_request ?E)]\<rparr>)"
    using docs by simp
  have fetch': "getClickUpPages_p2 ?E (js ''doc'') \<lparr>world = (1, 0), trace = [Get (docs_request ?E)]\<rparr>
      = (Inr (JArray example_tree), ?s2)"
    using fetch by simp
  show ?thesis
    by (intro conjI)
       (rule docs', rule fetch', rule n, rule failed, rule succeeded, rule sent, rule lost, rule kept,
        rule returns)
qed

section \<open>The retrying fetcher\<close>

lemma settle_ts_Inl:
  "settle validateStatus_ts r = Inl e \<Longrightarrow>
     r = NoResponse \<and> e = AxiosError None
     \<or> (\<exists>status data. 500 \<le> status \<and> r = Response status data \<and> e = AxiosError (Some status))"
  by (auto simp: settle_def validateStatus_ts_def split: http_reply.splits if_splits)

lemma settle_ts_not_404: "settle validateStatus_ts r \<noteq> Inl (AxiosError (Some 404))"
  using settle_ts_Inl [of r "AxiosError (Some 404)"] by auto

lemma settle_ts_below_500: "status < 500 \<Longrightarrow> settle validateStatus_ts (Response status data) = Inr data"
  by (simp add: settle_def validateStatus_ts_def)

lemma rejectedE:
  assumes "rejected validateStatus r"
  obtains e where "settle validateStatus r = Inl e"
  using assms by (auto simp: rejected_def split: sum.splits)

lemma ts_loop_rejected:
  assumes "attempt \<le> maxRetries"
    and "clickup E (world s) (pages_request E docId 1) = (r, w)"
    and "settle validateStatus_ts r = Inl e"
  shows "getClickUpPagesWithRetry_ts_loop E docId attempt lastError s =
           getClickUpPagesWithRetry_ts_loop E docId (Suc attempt) e
             \<lparr>world = w,
              trace = trace s @ [Get (pages_request E docId 1), Console (AttemptFailed attempt e)]
                @ (if attempt < maxRetries then [Sleep (min 10000 (2000 * 2 ^ (attempt - 1)))] else [])\<rparr>"
  using assms settle_ts_not_404 [of r]
  by (subst getClickUpPagesWithRetry_ts_loop.simps) (simp add: clickupApi_get_def emit_def)

lemma ts_loop_resolved:
  assumes "attempt \<le> maxRetries"
    and "clickup E (world s) (pages_request E docId 1) = (r, w)"
    and "settle validateStatus_ts r = Inr data"
  shows "getClickUpPagesWithRetry_ts_loop E docId attempt lastError s =
           (Inr (if truthy data then data else JArray []),
            \<lparr>world = w,
             trace = trace s @ Get (pages_request E docId 1)
               # (if truthy data then [] else [Console (NoData docId)])\<rparr>)"
  using assms
  by (subst getClickUpPagesWithRetry_ts_loop.simps) (simp add: clickupApi_get_def emit_def)

lemma ts_loop_exhausted:
  assumes "\<not> attempt \<le> maxRetries"
  shows "getClickUpPagesWithRetry_ts_loop E docId attempt lastError s =
           (Inl lastError, emit (Console (AllRetriesFailed lastError)) s)"
  using assms by (subst getClickUpPagesWithRetry_ts_loop.simps) simp

lemma ts_retry_trace:
  assumes c: "clickup E (world s) (pages_request E docId 1) = (r1, w1)"
      "clickup E w1 (pages_request E docId 1) = (r2, w2)"
      "clickup E w2 (pages_request E docId 1) = (r3, w3)"
    and e: "settle validateStatus_ts r1 = Inl e1" "settle validateStatus_ts r2 = Inl e2"
      "settle validateStatus_ts r3 = Inl e3"
  shows "getClickUpPagesWithRetry_ts E docId s =
           (Inl e3,
            \<lparr>world = w3,
             trace = trace s @
               [Get (pages_request E docId 1), Console (AttemptFailed 1 e1), Sleep 2000,
                Get (pages_request E docId 1), Console (AttemptFailed 2 e2), Sleep 4000,
                Get (pages_request E docId 1), Console (AttemptFailed 3 e3),
                Console (AllRetriesFailed e3)]\<rparr>)"
proof -
  let ?req = "pages_request E docId 1"
  define s1 where "s1 = \<lparr>world = w1, trace = trace s @ [Get ?req, Console (AttemptFailed 1 e1), Sleep 2000]\<rparr>"
  define s2 where "s2 = \<lparr>world = w2, trace = trace s1 @ [Get ?req, Console (AttemptFailed 2 e2), Sleep 4000]\<rparr>"
  define s3 where "s3 = \<lparr>world = w3, trace = trace s2 @ [Get ?req, Console (AttemptFailed 3 e3)]\<rparr>"
  have a1: "getClickUpPagesWithRetry_ts_loop E docId (Suc 0) Undefined s =
              getClickUpPagesWithRetry_ts_loop E docId (Suc (Suc 0)) e1 s1"
    using ts_loop_rejected [of "Suc 0" E s docId r1 w1 e1 Undefined] c(1) e(1)
    by (simp add: maxRetries_def s1_def)
  have a2: "getClickUpPagesWithRetry_ts_loop E docId (Suc (Suc 0)) e1 s1 =
              getClickUpPagesWithRetry_ts_loop E docId (Suc (Suc (Suc 0))) e2 s2"
    using ts_loop_rejected [of "Suc (Suc 0)" E s1 docId r2 w2 e2 e1] c(2) e(2)
    by (simp add: maxRetries_def s2_def s1_def numeral_2_eq_2)
  have a3: "getClickUpPagesWithRetry_ts_loop E docId (Suc (Suc (Suc 0))) e2 s2 =
              getClickUpPagesWithRetry_ts_loop E docId (Suc (Suc (Suc (Suc 0)))) e3 s3"
    using ts_loop_rejected [of "Suc (Suc (Suc 0))" E s2 docId r3 w3 e3 e2] c(3) e(3)
    by (simp add: maxRetries_def s3_def s2_def numeral_3_eq_3)
  have a4: "getClickUpPagesWithRetry_ts_loop E docId (Suc (Suc (Suc (Suc 0)))) e3 s3 =
              (Inl e3, emit (Console (AllRetriesFailed e3)) s3)"
    by (rule ts_loop_exhausted) (simp add: maxRetries_def)
  have "getClickUpPagesWithRetry_ts E docId s = (Inl e3, emit (Console (AllRetriesFailed e3)) s3)"
    by (simp only: getClickUpPagesWithRetry_ts_def One_nat_def a1 a2 a3 a4)
  then show ?thesis
    by (simp add: emit_def s3_def s2_def s1_def)
qed

lemma p1_loop_rejected:
  assumes "attempt \<le> maxRetries"
    and "clickup E (world s) (pages_request E docId 1) = (r, w)"
    and "settle validateStatus_default r = Inl e"
  shows "getClickUpPagesWithRetry_p1_loop E docId attempt lastError s =
           getClickUpPagesWithRetry_p1_loop E docId (Suc attempt) e
             \<lparr>world = w,
              trace = trace s @ [Get (pages_request E docId 1), Console (AttemptFailed attempt e)]
                @ (if attempt < maxRetries then [Sleep (2000 * attempt)] else [])\<rparr>"
  using assms
  by (subst getClickUpPagesWithRetry_p1_loop.simps) (simp add: clickupApi_get_def emit_def)

lemma p1_loop_exhausted:
  assumes "\<not> attempt \<le> maxRetries"
  shows "getClickUpPagesWithRetry_p1_loop E docId attempt lastError s =
           (Inl lastError, emit (Console (AllRetriesFailed lastError)) s)"
  using assms by (subst getClickUpPagesWithRetry_p1_loop.simps) simp

lemma p1_retry_trace:
  assumes c: "clickup E (world s) (pages_request E docId 1) = (r1, w1)"
      "clickup E w1 (pages_request E docId 1) = (r2, w2)"
      "clickup E w2 (pages_request E docId 1) = (r3, w3)"
    and e: "settle validateStatus_default r1 = Inl e1" "settle validateStatus_default r2 = Inl e2"
      "settle validateStatus_default r3 = Inl e3"
  shows "getClickUpPagesWithRetry_p1 E docId s =
           (Inl e3,
            \<lparr>world = w3,
             trace = trace s @
               [Get (pages_request E docId 1), Console (AttemptFailed 1 e1), Sleep 2000,
                Get (pages_request E docId 1), Console (AttemptFailed 2 e2), Sleep 4000,
                Get (pages_request E docId 1), Console (AttemptFailed 3 e3),
                Console (AllRetriesFailed e3)]\<rparr>)"
proof -
  let ?req = "pages_request E docId 1"
  define s1 where "s1 = \<lparr>world = w1, trace = trace s @ [Get ?req, Console (AttemptFailed 1 e1), Sleep 2000]\<rparr>"
  define s2 where "s2 = \<lparr>world = w2, trace = trace s1 @ [Get ?req, Console (AttemptFailed 2 e2), Sleep 4000]\<rparr>"
  define s3 where "s3 = \<lparr>world = w3, trace = trace s2 @ [Get ?req, Console (AttemptFailed 3 e3)]\<rparr>"
  have a1: "getClickUpPagesWithRetry_p1_loop E docId (Suc 0) Undefined s =
              getClickUpPagesWithRetry_p1_loop E docId (Suc (Suc 0)) e1 s1"
    using p1_loop_rejected [of "Suc 0" E s docId r1 w1 e1 Undefined] c(1) e(1)
    by (simp add: maxRetries_def s1_def)
  have a2: "getClickUpPagesWithRetry_p1_loop E docId (Suc (Suc 0)) e1 s1 =
              getClickUpPagesWithRetry_p1_loop E docId (Suc (Suc (Suc 0))) e2 s2"
    using p1_loop_rejected [of "Suc (Suc 0)" E s1 docId r2 w2 e2 e1] c(2) e(2)
    by (simp add: maxRetries_def s2_def s1_def numeral_2_eq_2)
  have a3: "getClickUpPagesWithRetry_p1_loop E docId (Suc (Suc (Suc 0))) e2 s2 =
              getClickUpPagesWithRetry_p1_loop E docId (Suc (Suc (Suc (Suc 0)))) e3 s3"
    using p1_loop_rejected [of "Suc (Suc (Suc 0))" E s2 docId r3 w3 e3 e2] c(3) e(3)
    by (simp add: maxRetries_def s3_def s2_def numeral_3_eq_3)
  have a4: "getClickUpPagesWithRetry_p1_loop E docId (Suc (Suc (Suc (Suc 0)))) e3 s3 =
              (Inl e3, emit (Console (AllRetriesFailed e3)) s3)"
    by (rule p1_loop_exhausted) (simp add: maxRetries_def)
  have "getClickUpPagesWithRetry_p1 E docId s = (Inl e3, emit (Console (AllRetriesFailed e3)) s3)"
    by (simp only: getClickUpPagesWithRetry_p1_def One_nat_def a1 a2 a3 a4)
  then show ?thesis
    by (simp add: emit_def s3_def s2_def s1_def)
qed

lemma three_replies:
  obtains r1 w1 r2 w2 r3 w3 where
    "clickup E w req = (r1, w1)" "clickup E w1 req = (r2, w2)" "clickup E w2 req = (r3, w3)"
    "replies E req maxRetries w = [r1, r2, r3]"
proof -
  obtain r1 w1 where c1: "clickup E w req = (r1, w1)" by (cases "clickup E w req")
  obtain r2 w2 where c2: "clickup E w1 req = (r2, w2)" by (cases "clickup E w1 req")
  obtain r3 w3 where c3: "clickup E w2 req = (r3, w3)" by (cases "clickup E w2 req")
  have "replies E req maxRetries w = [r1, r2, r3]"
    by (simp add: maxRetries_def eval_nat_numeral c1 c2 c3)
  with c1 c2 c3 show ?thesis using that by blast
qed

lemma replies_source_down:
  "replies (example_env source_down destination) req maxRetries (g, p)
     = [Response 503 JNull, Response 503 JNull, Response 503 JNull]"
  by (simp add: maxRetries_def eval_nat_numeral example_env_sel source_down_def)

text \<open>
  Claim C3 at an input where the code departs from it. The source answers every
  request for the pages with the status 429 and the JSON object of an error: a
  rate-limit response, which the claim counts among the transient failures. The client
  of \<open>clickup-docs-to-dust.ts\<close> accepts every status below 500, so its fetcher takes the
  first reply for a success: it returns the error object as the page list after one
  request, with no retry, no delay and no error raised. The fetcher of \<open>part_001\<close>, in
  the same environment, makes its three attempts, waits 2000 ms and 4000 ms between
  them and raises the error of the third. With a source that answers 503 the fetcher
  of \<open>clickup-docs-to-dust.ts\<close> makes its three attempts as well.
\<close>

theorem rate_limit_reply_not_retried:
  "replies (example_env source_rate_limited accepting)
       (pages_request (example_env source_rate_limited accepting) (js ''doc'') 1) maxRetries (world start)
     = [Response 429 (JOther True), Response 429 (JOther True), Response 429 (JOther True)]
   \<and> getClickUpPagesWithRetry_ts (example_env source_rate_limited accepting) (js ''doc'') start
     = (Inr (JOther True),
        \<lparr>world = (1, 0),
         trace = [Get (pages_request (example_env source_rate_limited accepting) (js ''doc'') 1)]\<rparr>)
   \<and> getClickUpPagesWithRetry_p1 (example_env source_rate_limited accepting) (js ''doc'') start
     = (Inl (AxiosError (Some 429)),
        \<lparr>world = (3, 0),
         trace =
           [Get (pages_request (example_env source_rate_limited accepting) (js ''doc'') 1),
            Console (AttemptFailed 1 (AxiosError (Some 429))), Sleep 2000,
            Get (pages_request (example_env source_rate_limited accepting) (js ''doc'') 1),
            Console (AttemptFailed 2 (AxiosError (Some 429))), Sleep 4000,
            Get (pages_request (example_env source_rate_limited accepting) (js ''doc'') 1),
            Console (AttemptFailed 3 (AxiosError (Some 429))),
            Console (AllRetriesFailed (AxiosError (Some 429)))]\<rparr>)
   \<and> getClickUpPagesWithRetry_ts (example_env source_down accepting) (js ''doc'') start
     = (Inl (AxiosError (Some 503)),
        \<lparr>world = (3, 0),
         trace =
           [Get (pages_request (example_env source_down accepting) (js ''doc'') 1),
            Console (AttemptFailed 1 (AxiosError (Some 503))), Sleep 2000,
            Get (pages_request (example_env source_down accepting) (js ''doc'') 1),
            Console (AttemptFailed 2 (AxiosError (Some 503))), Sleep 4000,
            Get (pages_request (example_env source_down accepting) (js ''doc'') 1),
            Console (AttemptFailed 3 (AxiosError (Some 503))),
            Console (AllRetriesFailed (AxiosError (Some 503)))]\<rparr>)"
proof -
  let ?E = "example_env source_rate_limited accepting"
  let ?D = "example_env source_down accepting"
  let ?busy = "Response 429 (JOther True)"
  have rs: "replies ?E (pages_request ?E (js ''doc'') 1) maxRetries (world start) = [?busy, ?busy, ?busy]"
    by (simp add: maxRetries_def eval_nat_numeral example_env_sel source_rate_limited_def)
  have ts: "getClickUpPagesWithRetry_ts ?E (js ''doc'') start
     = (Inr (JOther True), \<lparr>world = (1, 0), trace = [Get (pages_request ?E (js ''doc'') 1)]\<rparr>)"
    using ts_loop_resolved [of 1 ?E start "js ''doc''" ?busy "(1, 0)" "JOther True" Undefined]
    by (simp add: getClickUpPagesWithRetry_ts_def maxRetries_def start_def example_env_sel
        source_rate_limited_def settle_ts_below_500)
  have rejected: "settle validateStatus_default ?busy = Inl (AxiosError (Some 429))"
    by (simp add: settle_def validateStatus_default_def)
  have p1: "getClickUpPagesWithRetry_p1 ?E (js ''doc'') start =
      (Inl (AxiosError (Some 429)),
       \<lparr>world = (3, 0),
        trace = trace start @
          [Get (pages_request ?E (js ''doc'') 1), Console (AttemptFailed 1 (AxiosError (Some 429))), Sleep 2000,
           Get (pages_request ?E (js ''doc'') 1), Console (AttemptFailed 2 (AxiosError (Some 429))), Sleep 4000,
           Get (pages_request ?E (js ''doc'') 1), Console (AttemptFailed 3 (AxiosError (Some 429))),
           Console (AllRetriesFailed (AxiosError (Some 429)))]\<rparr>)"
    by (rule p1_retry_trace [where ?r1.0 = ?busy and ?r2.0 = ?busy and ?r3.0 = ?busy
          and ?w1.0 = "(1, 0)" and ?w2.0 = "(2, 0)"])
       (simp_all add: start_def example_env_sel source_rate_limited_def rejected)
  have down: "getClickUpPagesWithRetry_ts ?D (js ''doc'') start =
      (Inl (AxiosError (Some 503)),
       \<lparr>world = (3, 0),
        trace = trace start @
          [Get (pages_request ?D (js ''doc'') 1), Console (AttemptFailed 1 (AxiosError (Some 503))), Sleep 2000,
           Get (pages_request ?D (js ''doc'') 1), Console (AttemptFailed 2 (AxiosError (Some 503))), Sleep 4000,
           Get (pages_request ?D (js ''doc'') 1), Console (AttemptFailed 3 (AxiosError (Some 503))),
           Console (AllRetriesFailed (AxiosError (Some 503)))]\<rparr>)"
    by (rule ts_retry_trace [where ?r1.0 = "Response 503 JNull" and ?r2.0 = "Response 503 JNull"
          and ?r3.0 = "Response 503 JNull" and ?w1.0 = "(1, 0)" and ?w2.0 = "(2, 0)"])
       (simp_all add: start_def example_env_sel source_down_def settle_examples)
  from rs ts p1 down show ?thesis
    by (simp add: start_def)
qed

section \<open>What the configured \<open>validateStatus\<close> does to the fetcher\<close>

lemma ts_loop_never_not_found:
  "Console (DocNotFound d) \<in> set (trace (snd (getClickUpPagesWithRetry_ts_loop E docId attempt lastError s)))
   \<Longrightarrow> Console (DocNotFound d) \<in> set (trace s)"
proof (induction "maxRetries + 1 - attempt" arbitrary: attempt lastError s)
  case 0
  then have over: "\<not> attempt \<le> maxRetries"
    by simp
  from "0.prems" show ?case
    by (simp add: ts_loop_exhausted [OF over] emit_def)
next
  case (Suc n)
  then have le: "attempt \<le> maxRetries"
    by simp
  obtain r w where c: "clickup E (world s) (pages_request E docId 1) = (r, w)"
    by (cases "clickup E (world s) (pages_request E docId 1)")
  show ?case
  proof (cases "settle validateStatus_ts r")
    case (Inr data)
    from ts_loop_resolved [OF le c Inr] Suc.prems show ?thesis
      by (simp split: if_splits)
  next
    case (Inl e)
    let ?s' = "\<lparr>world = w,
        trace = trace s @ [Get (pages_request E docId 1), Console (AttemptFailed attempt e)]
          @ (if attempt < maxRetries then [Sleep (min 10000 (2000 * 2 ^ (attempt - 1)))] else [])\<rparr>"
    have n: "n = maxRetries + 1 - Suc attempt"
      using Suc.hyps(2) by simp
    from ts_loop_rejected [OF le c Inl] Suc.prems
    have "Console (DocNotFound d) \<in> set (trace (snd (getClickUpPagesWithRetry_ts_loop E docId (Suc attempt) e ?s')))"
      by simp
    from Suc.hyps(1) [OF n this] show ?thesis
      by (simp split: if_splits)
  qed
qed

text \<open>
  Claim C10. In \<open>clickup-docs-to-dust.ts\<close>, whose client accepts every status below
  500, a reply with a status from 400 to 499 settles the fetch at once, at the first
  attempt and at every later one: the result is the body of the reply as it is (the
  empty list when the body is falsy), with no further request and no delay. axios
  rejects a reply of the source only when there is no response (a network failure or a
  timeout) or when the status is 500 or more, so only these reach the handler that
  retries. The branch of that handler for the status 404 never runs: a fetch writes no
  "not found" line to the console.
\<close>

theorem validateStatus_ts_resolves_4xx:
  "(\<forall>status data w.
      clickup E (world s) (pages_request E docId 1) = (Response status data, w)
      \<and> 400 \<le> status \<and> status \<le> 499 \<longrightarrow>
      getClickUpPagesWithRetry_ts E docId s =
        (Inr (if truthy data then data else JArray []),
         \<lparr>world = w,
          trace = trace s @ Get (pages_request E docId 1)
            # (if truthy data then [] else [Console (NoData docId)])\<rparr>))
   \<and> (\<forall>attempt lastError status data w.
      attempt \<le> maxRetries
      \<and> clickup E (world s) (pages_request E docId 1) = (Response status data, w)
      \<and> 400 \<le> status \<and> status \<le> 499 \<longrightarrow>
      getClickUpPagesWithRetry_ts_loop E docId attempt lastError s =
        (Inr (if truthy data then data else JArray []),
         \<lparr>world = w,
          trace = trace s @ Get (pages_request E docId 1)
            # (if truthy data then [] else [Console (NoData docId)])\<rparr>))
   \<and> (\<forall>r e. settle validateStatus_ts r = Inl e \<longrightarrow>
         r = NoResponse \<and> e = AxiosError None
         \<or> (\<exists>status data. 500 \<le> status \<and> r = Response status data \<and> e = AxiosError (Some status)))
   \<and> (Console (DocNotFound d) \<in> set (trace (snd (getClickUpPagesWithRetry_ts E docId s)))
        \<longrightarrow> Console (DocNotFound d) \<in> set (trace s))"
proof -
  have "getClickUpPagesWithRetry_ts E docId s =
        (Inr (if truthy data then data else JArray []),
         \<lparr>world = w,
          trace = trace s @ Get (pages_request E docId 1)
            # (if truthy data then [] else [Console (NoData docId)])\<rparr>)"
    if "clickup E (world s) (pages_request E docId 1) = (Response status data, w)"
      and "400 \<le> status" and "status \<le> 499" for status data w
  proof -
    have "settle validateStatus_ts (Response status data) = Inr data"
      using that(3) by (simp add: settle_ts_below_500)
    from ts_loop_resolved [OF _ that(1) this, of 1] show ?thesis
      by (simp add: getClickUpPagesWithRetry_ts_def maxRetries_def)
  qed
  moreover have "getClickUpPagesWithRetry_ts_loop E docId attempt lastError s =
        (Inr (if truthy data then data else JArray []),
         \<lparr>world = w,
          trace = trace s @ Get (pages_request E docId 1)
            # (if truthy data then [] else [Console (NoData docId)])\<rparr>)"
    if "attempt \<le> maxRetries"
      and "clickup E (world s) (pages_request E docId 1) = (Response status data, w)"
      and "400 \<le> status" and "status \<le> 499" for attempt lastError status data w
  proof -
    have "settle validateStatus_ts (Response status data) = Inr data"
      using that(4) by (simp add: settle_ts_below_500)
    from ts_loop_resolved [OF that(1) that(2) this] show ?thesis .
  qed
  moreover have "Console (DocNotFound d) \<in> set (trace s)"
    if "Console (DocNotFound d) \<in> set (trace (snd (getClickUpPagesWithRetry_ts E docId s)))"
    using that ts_loop_never_not_found by (simp add: getClickUpPagesWithRetry_ts_def)
  ultimately show ?thesis
    using settle_ts_Inl by blast
qed

theorem validateStatus_ts_resolves_4xx_witness:
  "clickup (example_env source_rate_limited accepting) (world start)
       (pages_request (example_env source_rate_limited accepting) (js ''doc'') 1)
     = (Response 429 (JOther True), (1, 0))
   \<and> getClickUpPagesWithRetry_ts (example_env source_rate_limited accepting) (js ''doc'') start
     = (Inr (JOther True),
        \<lparr>world = (1, 0),
         trace = [Get (pages_request (example_env source_rate_limited accepting) (js ''doc'') 1)]\<rparr>)
   \<and> settle validateStatus_ts (Response 503 JNull) = Inl (AxiosError (Some 503))
   \<and> settle validateStatus_ts (Response 404 (JOther True)) = Inr (JOther True)"
proof -
  let ?E = "example_env source_rate_limited accepting"
  have c: "clickup ?E (world start) (pages_request ?E (js ''doc'') 1) = (Response 429 (JOther True), (1, 0))"
    by (simp add: start_def example_env_sel source_rate_limited_def)
  from validateStatus_ts_resolves_4xx [of ?E start "js ''doc''" "js ''doc''"]
  have "clickup ?E (world start) (pages_request ?E (js ''doc'') 1) = (Response 429 (JOther True), (1, 0))
      \<and> (400::nat) \<le> 429 \<and> (429::nat) \<le> 499 \<longrightarrow>
      getClickUpPagesWithRetry_ts ?E (js ''doc'') start =
        (Inr (if truthy (JOther True) then JOther True else JArray []),
         \<lparr>world = (1, 0),
          trace = trace start @ Get (pages_request ?E (js ''doc'') 1)
            # (if truthy (JOther True) then [] else [Console (NoData (js ''doc''))])\<rparr>)"
    by blast
  with c have "getClickUpPagesWithRetry_ts ?E (js ''doc'') start =
        (Inr (JOther True), \<lparr>world = (1, 0), trace = [Get (pages_request ?E (js ''doc'') 1)]\<rparr>)"
    by (simp add: start_def)
  with c show ?thesis
    by (simp add: settle_examples)
qed

section \<open>A page list that is not found\<close>

text \<open>
  Claim C4 at an input where the code departs from it. The source answers 404 with
  the JSON object of an error. The fetcher of \<open>clickup-docs-to-dust.ts\<close> returns that
  object as the page list, not the empty list; \<open>main\<close> then fails to iterate over it
  and ends the run with a TypeError. The fetcher of \<open>part_001\<close> has no case for 404:
  it tries three times and throws.
\<close>

theorem not_found_body_returned_as_pages:
  "getClickUpPagesWithRetry_ts (example_env source_not_found accepting) (js ''doc'') start
     = (Inr (JOther True),
        \<lparr>world = (1, 0),
         trace = [Get (pages_request (example_env source_not_found accepting) (js ''doc'') 1)]\<rparr>)
   \<and> fst (getClickUpPagesWithRetry_ts (example_env source_not_found accepting) (js ''doc'') start)
       \<noteq> Inr (JArray [])
   \<and> trace (snd (main_ts (example_env source_pages_not_found accepting) start))
       = [Get (docs_request (example_env source_pages_not_found accepting)),
          Get (pages_request (example_env source_pages_not_found accepting) (js ''doc'') 1),
          Console (MainError TypeError)]
   \<and> fst (getClickUpPagesWithRetry_p1 (example_env source_not_found accepting) (js ''doc'') start)
       = Inl (AxiosError (Some 404))
   \<and> length (gets (trace (snd (getClickUpPagesWithRetry_p1 (example_env source_not_found accepting)
        (js ''doc'') start)))) = 3"
proof -
  let ?E = "example_env source_not_found accepting"
  let ?M = "example_env source_pages_not_found accepting"
  have ts: "getClickUpPagesWithRetry_ts ?E (js ''doc'') start
     = (Inr (JOther True), \<lparr>world = (1, 0), trace = [Get (pages_request ?E (js ''doc'') 1)]\<rparr>)"
    using ts_loop_resolved [of 1 ?E start "js ''doc''" "Response 404 (JOther True)" "(1, 0)" "JOther True" Undefined]
    by (simp add: getClickUpPagesWithRetry_ts_def maxRetries_def start_def example_env_sel
        source_not_found_def settle_examples)
  have docs: "getAllDocs_ts ?M start =
      (Inr [\<lparr>doc_ident = js ''doc'', doc_name = js ''Doc''\<rparr>],
       \<lparr>world = (Suc 0, 0), trace = [Get (docs_request ?M)]\<rparr>)"
    by (simp add: getAllDocs_ts_def clickupApi_get_def start_def example_env_sel
        source_pages_not_found_def docs_request_def settle_examples)
  have fetch: "getClickUpPagesWithRetry_ts ?M (js ''doc'') \<lparr>world = (Suc 0, 0), trace = [Get (docs_request ?M)]\<rparr>
     = (Inr (JOther True),
        \<lparr>world = (2, 0), trace = [Get (docs_request ?M), Get (pages_request ?M (js ''doc'') 1)]\<rparr>)"
    using ts_loop_resolved [of 1 ?M "\<lparr>world = (Suc 0, 0), trace = [Get (docs_request ?M)]\<rparr>" "js ''doc''"
        "Response 404 (JOther True)" "(2, 0)" "JOther True" Undefined]
    by (simp add: getClickUpPagesWithRetry_ts_def maxRetries_def example_env_sel
        source_pages_not_found_def pages_request_def settle_examples)
  have main: "trace (snd (main_ts ?M start))
       = [Get (docs_request ?M), Get (pages_request ?M (js ''doc'') 1), Console (MainError TypeError)]"
    by (simp add: main_ts_def docs getClickUpPages_ts_def fetch processPages_ts_data_def emit_def)
  have p1: "getClickUpPagesWithRetry_p1 ?E (js ''doc'') start =
      (Inl (AxiosError (Some 404)),
       \<lparr>world = (3, 0),
        trace = trace start @
          [Get (pages_request ?E (js ''doc'') 1), Console (AttemptFailed 1 (AxiosError (Some 404))), Sleep 2000,
           Get (pages_request ?E (js ''doc'') 1), Console (AttemptFailed 2 (AxiosError (Some 404))), Sleep 4000,
           Get (pages_request ?E (js ''doc'') 1), Console (AttemptFailed 3 (AxiosError (Some 404))),
           Console (AllRetriesFailed (AxiosError (Some 404)))]\<rparr>)"
    by (rule p1_retry_trace [where ?r1.0 = "Response 404 (JOther True)"
          and ?r2.0 = "Response 404 (JOther True)" and ?r3.0 = "Response 404 (JOther True)"
          and ?w1.0 = "(1, 0)" and ?w2.0 = "(2, 0)"])
       (simp_all add: start_def example_env_sel source_not_found_def settle_examples)
  from ts main p1 show ?thesis
    by (simp add: start_def)
qed

section \<open>A document whose fetch fails\<close>

lemma getClickUpPages_p2_gets:
  "gets (trace (snd (getClickUpPages_p2 E docId s))) = gets (trace s) @ [pages_request E docId (- 1)]"
  by (simp add: getClickUpPages_p2_def clickupApi_get_def emit_def gets_append
      split: prod.splits sum.splits)

lemma processPages_p2_data_gets: "gets (trace (snd (processPages_p2_data E data s))) = gets (trace s)"
  by (cases "forOf data") (simp_all add: processPages_p2_data_def processPages_p2_upserted gets_upserted)

lemma main_p2_docs_gets:
  "gets (trace (snd (main_p2_docs E docIds k s)))
     = gets (trace s) @ map (\<lambda>docId. pages_request E docId (- 1)) docIds"
proof (induction docIds arbitrary: k s)
  case Nil
  show ?case by simp
next
  case (Cons docId docIds)
  obtain r s1 where f: "getClickUpPages_p2 E docId s = (r, s1)"
    by (cases "getClickUpPages_p2 E docId s")
  have g1: "gets (trace s1) = gets (trace s) @ [pages_request E docId (- 1)]"
    using getClickUpPages_p2_gets [of E docId s] by (simp add: f)
  show ?case
  proof (cases r)
    case (Inl error)
    with f g1 show ?thesis
      by (simp add: Cons.IH emit_def gets_append)
  next
    case (Inr data)
    obtain r2 s2 where p: "processPages_p2_data E data s1 = (r2, s2)"
      by (cases "processPages_p2_data E data s1")
    have g2: "gets (trace s2) = gets (trace s1)"
      using processPages_p2_data_gets [of E data s1] by (simp add: p)
    from f Inr p g1 g2 show ?thesis
      by (cases r2) (simp_all add: Cons.IH emit_def gets_append)
  qed
qed

lemma example_urls:
  "get_url (pages_request (example_env source destination) (js ''d1'') k) = js ''/workspaces/ws/docs/d1/pages''"
  "get_url (pages_request (example_env source destination) (js ''d2'') k) \<noteq> js ''/workspaces/ws/docs/d1/pages''"
  "max_page_depth (pages_request E docId k) = Some k"
  "max_page_depth (docs_request E) = None"
  by (simp_all add: pages_request_def docs_request_def example_env_sel js_def)

lemma first_doc_down_replies:
  "source_first_doc_down (docs_request E) n
     = Response 200 (JDocs [\<lparr>doc_ident = js ''d1'', doc_name = js ''One''\<rparr>,
                            \<lparr>doc_ident = js ''d2'', doc_name = js ''Two''\<rparr>])"
  "source_first_doc_down (pages_request (example_env source destination) (js ''d1'') k) n = Response 503 JNull"
  "source_first_doc_down (pages_request (example_env source destination) (js ''d2'') k) n
     = Response 200 (JArray example_tree)"
  by (simp_all add: source_first_doc_down_def example_urls)

lemma upserted_example_accepting:
  "upserted (example_env source accepting) doc_id [page_a, page_d, page_e] \<lparr>world = (g, 0), trace = tr\<rparr>
     = \<lparr>world = (g, 3),
        trace = tr @
          [Post (dustRequest (example_env source accepting) doc_id page_a),
           Console (Upserted (documentId (example_env source accepting) page_a)),
           Post (dustRequest (example_env source accepting) doc_id page_d),
           Console (Upserted (documentId (example_env source accepting) page_d)),
           Post (dustRequest (example_env source accepting) doc_id page_e),
           Console (Upserted (documentId (example_env source accepting) page_e))]\<rparr>"
  by (simp add: upserted.simps upsert_result example_env_sel accepting_def settle_examples)

text \<open>
  Claim C5 at an input where the code departs from it. The source lists the documents
  \<open>d1\<close> and \<open>d2\<close> and is down for the pages of \<open>d1\<close>. \<open>main\<close> of
  \<open>clickup-docs-to-dust.ts\<close> gives up \<open>d1\<close> after three attempts and ends the run: it
  never requests the pages of \<open>d2\<close> and writes nothing. \<open>main\<close> of \<open>part_002\<close>, in the
  same environment, logs the failure of \<open>d1\<close>, goes on to \<open>d2\<close> and writes its three
  candidates.
\<close>

theorem main_ts_stops_at_failed_root:
  "trace (snd (main_ts (example_env source_first_doc_down accepting) start))
     = [Get (docs_request (example_env source_first_doc_down accepting)),
        Get (pages_request (example_env source_first_doc_down accepting) (js ''d1'') 1),
        Console (AttemptFailed 1 (AxiosError (Some 503))), Sleep 2000,
        Get (pages_request (example_env source_first_doc_down accepting) (js ''d1'') 1),
        Console (AttemptFailed 2 (AxiosError (Some 503))), Sleep 4000,
        Get (pages_request (example_env source_first_doc_down accepting) (js ''d1'') 1),
        Console (AttemptFailed 3 (AxiosError (Some 503))),
        Console (AllRetriesFailed (AxiosError (Some 503))),
        Console (FetchError (AxiosError (Some 503))),
        Console (MainError (AxiosError (Some 503)))]
   \<and> gets (trace (snd (main_p2 (example_env source_first_doc_down accepting) start)))
       = [docs_request (example_env source_first_doc_down accepting),
          pages_request (example_env source_first_doc_down accepting) (js ''d1'') (- 1),
          pages_request (example_env source_first_doc_down accepting) (js ''d2'') (- 1)]
   \<and> posts (trace (snd (main_p2 (example_env source_first_doc_down accepting) start)))
       = map (dustRequest (example_env source_first_doc_down accepting) doc_id) [page_a, page_d, page_e]"
proof -
  let ?E = "example_env source_first_doc_down accepting"
  let ?e = "AxiosError (Some 503)"
  let ?s1 = "\<lparr>world = (Suc 0, 0 :: nat), trace = [Get (docs_request ?E)]\<rparr>"
  have docs: "getAllDocs_ts ?E start =
      (Inr [\<lparr>doc_ident = js ''d1'', doc_name = js ''One''\<rparr>, \<lparr>doc_ident = js ''d2'', doc_name = js ''Two''\<rparr>], ?s1)"
    by (simp add: getAllDocs_ts_def clickupApi_get_def start_def example_env_sel
        first_doc_down_replies settle_examples)
  have fetch: "getClickUpPagesWithRetry_ts ?E (js ''d1'') ?s1 =
      (Inl ?e,
       \<lparr>world = (4, 0),
        trace =
          [Get (docs_request ?E),
           Get (pages_request ?E (js ''d1'') 1), Console (AttemptFailed 1 ?e), Sleep 2000,
           Get (pages_request ?E (js ''d1'') 1), Console (AttemptFailed 2 ?e), Sleep 4000,
           Get (pages_request ?E (js ''d1'') 1), Console (AttemptFailed 3 ?e),
           Console (AllRetriesFailed ?e)]\<rparr>)"
    using ts_retry_trace [of ?E ?s1 "js ''d1''" "Response 503 JNull" "(2, 0)" "Response 503 JNull" "(3, 0)"
        "Response 503 JNull" "(4, 0)" ?e ?e ?e]
    by (simp add: example_env_sel first_doc_down_replies settle_examples)
  have ts: "trace (snd (main_ts ?E start))
     = [Get (docs_request ?E),
        Get (pages_request ?E (js ''d1'') 1), Console (AttemptFailed 1 ?e), Sleep 2000,
        Get (pages_request ?E (js ''d1'') 1), Console (AttemptFailed 2 ?e), Sleep 4000,
        Get (pages_request ?E (js ''d1'') 1), Console (AttemptFailed 3 ?e),
        Console (AllRetriesFailed ?e), Console (FetchError ?e), Console (MainError ?e)]"
    by (simp add: main_ts_def docs getClickUpPages_ts_def fetch emit_def)
  have docs2: "getAllDocs_p2 ?E start = (Inr [js ''d1'', js ''d2''], ?s1)"
    by (simp add: getAllDocs_p2_def clickupApi_get_def start_def example_env_sel
        first_doc_down_replies settle_examples)
  have g: "gets (trace (snd (main_p2 ?E start)))
       = [docs_request ?E, pages_request ?E (js ''d1'') (- 1), pages_request ?E (js ''d2'') (- 1)]"
  proof -
    obtain total s2 where m: "main_p2_docs ?E [js ''d1'', js ''d2''] 0 ?s1 = (total, s2)"
      by (cases "main_p2_docs ?E [js ''d1'', js ''d2''] 0 ?s1")
    from main_p2_docs_gets [of ?E "[js ''d1'', js ''d2'']" 0 ?s1]
    have "gets (trace s2) = gets (trace ?s1) @ map (\<lambda>docId. pages_request ?E docId (- 1)) [js ''d1'', js ''d2'']"
      unfolding m snd_conv .
    moreover have "main_p2 ?E start = (Inr (), emit (Console (TotalUpserted total)) s2)"
      by (simp only: main_p2_def docs2 m prod.case sum.case)
    ultimately show ?thesis
      by (simp add: emit_def gets_append)
  qed
  have f1: "getClickUpPages_p2 ?E (js ''d1'') ?s1 =
      (Inl ?e,
       \<lparr>world = (2, 0),
        trace = [Get (docs_request ?E), Get (pages_request ?E (js ''d1'') (- 1)), Console (FetchError ?e)]\<rparr>)"
    by (simp add: getClickUpPages_p2_def clickupApi_get_def example_env_sel first_doc_down_replies
        settle_examples emit_def)
  have f2: "getClickUpPages_p2 ?E (js ''d2'')
      \<lparr>world = (2, 0),
       trace = [Get (docs_request ?E), Get (pages_request ?E (js ''d1'') (- 1)), Console (FetchError ?e),
                Console (DocError (js ''d1'') ?e)]\<rparr> =
      (Inr (JArray example_tree),
       \<lparr>world = (3, 0),
        trace = [Get (docs_request ?E), Get (pages_request ?E (js ''d1'') (- 1)), Console (FetchError ?e),
                 Console (DocError (js ''d1'') ?e), Get (pages_request ?E (js ''d2'') (- 1))]\<rparr>)"
    by (simp add: getClickUpPages_p2_def clickupApi_get_def example_env_sel first_doc_down_replies
        settle_examples)
  have p: "posts (trace (snd (main_p2 ?E start))) = map (dustRequest ?E doc_id) [page_a, page_d, page_e]"
    by (simp add: main_p2_def docs2 f1 emit_def f2 processPages_p2_data_def processPages_p2_upserted
        flattenPages_example upserted_example_accepting posts_append)
  from ts g p show ?thesis
    by (intro conjI)
qed

section \<open>Further properties\<close>

text \<open>
  \<open>main\<close> of \<open>part_002\<close> requests the pages of every document of the listing, once and
  in the order of the listing, whatever fails on the way, and returns normally.
\<close>

theorem main_p2_fetches_every_document:
  assumes "getAllDocs_p2 E s = (Inr docIds, s1)"
  shows "gets (trace (snd (main_p2 E s)))
           = gets (trace s1) @ map (\<lambda>docId. pages_request E docId (- 1)) docIds
         \<and> fst (main_p2 E s) = Inr ()"
proof -
  obtain total s2 where m: "main_p2_docs E docIds 0 s1 = (total, s2)"
    by (cases "main_p2_docs E docIds 0 s1")
  from main_p2_docs_gets [of E docIds 0 s1]
  have "gets (trace s2) = gets (trace s1) @ map (\<lambda>docId. pages_request E docId (- 1)) docIds"
    unfolding m snd_conv .
  moreover have "main_p2 E s = (Inr (), emit (Console (TotalUpserted total)) s2)"
    by (simp only: main_p2_def assms m prod.case sum.case)
  ultimately show ?thesis
    by (simp add: emit_def gets_append)
qed

theorem main_p2_fetches_every_document_witness:
  "getAllDocs_p2 (example_env source_first_doc_down accepting) start
     = (Inr [js ''d1'', js ''d2''],
        \<lparr>world = (1, 0), trace = [Get (docs_request (example_env source_first_doc_down accepting))]\<rparr>)
   \<and> gets (trace (snd (main_p2 (example_env source_first_doc_down accepting) start)))
       = [docs_request (example_env source_first_doc_down accepting),
          pages_request (example_env source_first_doc_down accepting) (js ''d1'') (- 1),
          pages_request (example_env source_first_doc_down accepting) (js ''d2'') (- 1)]"
proof -
  let ?E = "example_env source_first_doc_down accepting"
  let ?s1 = "\<lparr>world = (Suc 0, 0 :: nat), trace = [Get (docs_request ?E)]\<rparr>"
  have docs: "getAllDocs_p2 ?E start = (Inr [js ''d1'', js ''d2''], ?s1)"
    by (simp add: getAllDocs_p2_def clickupApi_get_def start_def example_env_sel
        first_doc_down_replies settle_examples)
  from main_p2_fetches_every_document [OF docs] docs show ?thesis
    by simp
qed

text \<open>
  The batched \<open>processPages\<close> of \<open>part_000\<close> and the walking one of \<open>part_001\<close> send the
  same requests to the destination, in the same order.
\<close>

theorem batched_sends_what_walking_sends:
  "map_option (\<lambda>r. posts (trace (snd r))) (processPages_p0 E ps 5 s)
     = Some (posts (trace (snd (processPages_ts E (\<lambda>page. CLICKUP_DOC_ID E) ps s))))"
proof -
  obtain s' where run: "processPages_p0 E ps 5 s = Some (Inr (), s')"
    and d: "deliveries (trace s') =
          deliveries (trace s) @ pauses (map (writes E (\<lambda>page. CLICKUP_DOC_ID E)) (chunks 5 (flattenPages ps)))"
    using processPages_p0_loop_deliveries [of 5 E "flattenPages ps" 0 s]
    by (auto simp: processPages_p0_def)
  have "posts (trace s') = posts (deliveries (trace s'))"
    by (simp add: posts_deliveries)
  also have "\<dots> = posts (trace s) @ map (dustRequest E (\<lambda>page. CLICKUP_DOC_ID E)) (flattenPages ps)"
    by (simp add: d posts_append posts_deliveries posts_pauses concat_chunks)
  finally show ?thesis
    by (simp add: run processPages_ts_upserted posts_upserted)
qed

theorem batched_sends_what_walking_sends_witness:
  "map_option (\<lambda>r. posts (trace (snd r)))
      (processPages_p0 (example_env source_down failing_first) example_tree 5 start)
     = Some (map (dustRequest (example_env source_down failing_first) (\<lambda>page. js ''doc''))
               [page_a, page_d, page_e])"
proof -
  let ?E = "example_env source_down failing_first"
  have "posts (trace (snd (processPages_ts ?E (\<lambda>page. CLICKUP_DOC_ID ?E) example_tree start)))
      = map (dustRequest ?E (\<lambda>page. js ''doc'')) [page_a, page_d, page_e]"
    by (simp only: processPages_ts_upserted snd_conv posts_upserted flattenPages_example)
       (simp add: start_def example_env_sel)
  with batched_sends_what_walking_sends [of ?E example_tree start] show ?thesis
    by simp
qed

text \<open>
  A fetch of \<open>clickup-docs-to-dust.ts\<close> whose first two attempts are rejected and
  whose third reply has a status below 500 returns the body of the third reply (the
  empty list when that body is falsy), after three requests and the delays of 2000 ms
  and 4000 ms.
\<close>

theorem fetch_recovers_on_third_attempt:
  assumes "clickup E (world s) (pages_request E docId 1) = (r1, w1)"
    and "clickup E w1 (pages_request E docId 1) = (r2, w2)"
    and "clickup E w2 (pages_request E docId 1) = (Response status data, w3)"
    and "settle validateStatus_ts r1 = Inl e1"
    and "settle validateStatus_ts r2 = Inl e2"
    and "status < 500"
  shows "getClickUpPagesWithRetry_ts E docId s =
           (Inr (if truthy data then data else JArray []),
            \<lparr>world = w3,
             trace = trace s @
               [Get (pages_request E docId 1), Console (AttemptFailed 1 e1), Sleep 2000,
                Get (pages_request E docId 1), Console (AttemptFailed 2 e2), Sleep 4000,
                Get (pages_request E docId 1)]
               @ (if truthy data then [] else [Console (NoData docId)])\<rparr>)"
proof -
  let ?req = "pages_request E docId 1"
  define s1 where "s1 = \<lparr>world = w1, trace = trace s @ [Get ?req, Console (AttemptFailed 1 e1), Sleep 2000]\<rparr>"
  define s2 where "s2 = \<lparr>world = w2, trace = trace s1 @ [Get ?req, Console (AttemptFailed 2 e2), Sleep 4000]\<rparr>"
  have a1: "getClickUpPagesWithRetry_ts_loop E docId (Suc 0) Undefined s =
              getClickUpPagesWithRetry_ts_loop E docId (Suc (Suc 0)) e1 s1"
    using ts_loop_rejected [of "Suc 0" E s docId r1 w1 e1 Undefined] assms(1,4)
    by (simp add: maxRetries_def s1_def)
  have a2: "getClickUpPagesWithRetry_ts_loop E docId (Suc (Suc 0)) e1 s1 =
              getClickUpPagesWithRetry_ts_loop E docId (Suc (Suc (Suc 0))) e2 s2"
    using ts_loop_rejected [of "Suc (Suc 0)" E s1 docId r2 w2 e2 e1] assms(2,5)
    by (simp add: maxRetries_def s2_def s1_def numeral_2_eq_2)
  have ok: "settle validateStatus_ts (Response status data) = Inr data"
    using assms(6) by (rule settle_ts_below_500)
  have a3: "getClickUpPagesWithRetry_ts_loop E docId (Suc (Suc (Suc 0))) e2 s2 =
              (Inr (if truthy data then data else JArray []),
               \<lparr>world = w3,
                trace = trace s2 @ Get ?req # (if truthy data then [] else [Console (NoData docId)])\<rparr>)"
    using ts_loop_resolved [of "Suc (Suc (Suc 0))" E s2 docId "Response status data" w3 data e2] assms(3) ok
    by (simp add: maxRetries_def s2_def)
  have "getClickUpPagesWithRetry_ts E docId s =
      (Inr (if truthy data then data else JArray []),
       \<lparr>world = w3,
        trace = trace s2 @ Get ?req # (if truthy data then [] else [Console (NoData docId)])\<rparr>)"
    by (simp only: getClickUpPagesWithRetry_ts_def One_nat_def a1 a2 a3)
  then show ?thesis
    by (simp add: s2_def s1_def)
qed

theorem fetch_recovers_on_third_attempt_witness:
  "getClickUpPagesWithRetry_ts (example_env source_recovering accepting) (js ''doc'') start =
     (Inr (JArray example_tree),
      \<lparr>world = (3, 0),
       trace =
         [Get (pages_request (example_env source_recovering accepting) (js ''doc'') 1),
          Console (AttemptFailed 1 (AxiosError (Some 503))), Sleep 2000,
          Get (pages_request (example_env source_recovering accepting) (js ''doc'') 1),
          Console (AttemptFailed 2 (AxiosError (Some 503))), Sleep 4000,
          Get (pages_request (example_env source_recovering accepting) (js ''doc'') 1)]\<rparr>)"
  using fetch_recovers_on_third_attempt [of "example_env source_recovering accepting" start "js ''doc''"
      "Response 503 JNull" "(1, 0)" "Response 503 JNull" "(2, 0)" 200 "JArray example_tree" "(3, 0)"
      "AxiosError (Some 503)" "AxiosError (Some 503)"]
  by (simp add: start_def example_env_sel source_recovering_def settle_examples)

text \<open>
  The retry ceiling for the replies that axios rejects. A fetch whose three replies
  are all rejected (by the client of \<open>clickup-docs-to-dust.ts\<close>: no response, or a
  status of 500 or more; by the client of \<open>part_001\<close>: no response, or a status outside
  200 to 299) makes exactly \<open>maxRetries = 3\<close> attempts, waits 2000 ms after the first
  failure and 4000 ms after the second (the delays increase; the cap of 10000 ms is not
  reached), does not wait after the third, and then raises the error of the third
  attempt.
\<close>

theorem retry_ceiling_three_attempts:
  "maxRetries = 3
   \<and> (list_all (rejected validateStatus_ts) (replies E (pages_request E docId 1) maxRetries (world s)) \<longrightarrow>
       (\<exists>e1 e2 e3 w.
          map (settle validateStatus_ts) (replies E (pages_request E docId 1) maxRetries (world s))
            = [Inl e1, Inl e2, Inl e3]
          \<and> getClickUpPagesWithRetry_ts E docId s =
              (Inl e3,
               \<lparr>world = w,
                trace = trace s @
                  [Get (pages_request E docId 1), Console (AttemptFailed 1 e1),
                   Sleep (min 10000 (2000 * 2 ^ (1 - 1))),
                   Get (pages_request E docId 1), Console (AttemptFailed 2 e2),
                   Sleep (min 10000 (2000 * 2 ^ (2 - 1))),
                   Get (pages_request E docId 1), Console (AttemptFailed 3 e3),
                   Console (AllRetriesFailed e3)]\<rparr>)))
   \<and> (list_all (rejected validateStatus_default) (replies E (pages_request E docId 1) maxRetries (world s)) \<longrightarrow>
       (\<exists>e1 e2 e3 w.
          map (settle validateStatus_default) (replies E (pages_request E docId 1) maxRetries (world s))
            = [Inl e1, Inl e2, Inl e3]
          \<and> getClickUpPagesWithRetry_p1 E docId s =
              (Inl e3,
               \<lparr>world = w,
                trace = trace s @
                  [Get (pages_request E docId 1), Console (AttemptFailed 1 e1), Sleep (2000 * 1),
                   Get (pages_request E docId 1), Console (AttemptFailed 2 e2), Sleep (2000 * 2),
                   Get (pages_request E docId 1), Console (AttemptFailed 3 e3),
                   Console (AllRetriesFailed e3)]\<rparr>)))
   \<and> min 10000 (2000 * 2 ^ (1 - 1)) < (min 10000 (2000 * 2 ^ (2 - 1)) :: nat)
   \<and> 2000 * 1 < (2000 * 2 :: nat)"
proof -
  let ?req = "pages_request E docId 1"
  obtain r1 w1 r2 w2 r3 w3 where
    c: "clickup E (world s) ?req = (r1, w1)" "clickup E w1 ?req = (r2, w2)" "clickup E w2 ?req = (r3, w3)"
    and rs: "replies E ?req maxRetries (world s) = [r1, r2, r3]"
    by (rule three_replies)
  have ts: "\<exists>e1 e2 e3 w.
          map (settle validateStatus_ts) (replies E ?req maxRetries (world s)) = [Inl e1, Inl e2, Inl e3]
          \<and> getClickUpPagesWithRetry_ts E docId s =
              (Inl e3,
               \<lparr>world = w,
                trace = trace s @
                  [Get ?req, Console (AttemptFailed 1 e1), Sleep (min 10000 (2000 * 2 ^ (1 - 1))),
                   Get ?req, Console (AttemptFailed 2 e2), Sleep (min 10000 (2000 * 2 ^ (2 - 1))),
                   Get ?req, Console (AttemptFailed 3 e3), Console (AllRetriesFailed e3)]\<rparr>)"
    if "list_all (rejected validateStatus_ts) (replies E ?req maxRetries (world s))"
  proof -
    from that rs obtain e1 e2 e3 where
      e: "settle validateStatus_ts r1 = Inl e1" "settle validateStatus_ts r2 = Inl e2"
         "settle validateStatus_ts r3 = Inl e3"
      by (auto elim!: rejectedE)
    from ts_retry_trace [OF c e] e rs show ?thesis
      by simp
  qed
  have p1: "\<exists>e1 e2 e3 w.
          map (settle validateStatus_default) (replies E ?req maxRetries (world s)) = [Inl e1, Inl e2, Inl e3]
          \<and> getClickUpPagesWithRetry_p1 E docId s =
              (Inl e3,
               \<lparr>world = w,
                trace = trace s @
                  [Get ?req, Console (AttemptFailed 1 e1), Sleep (2000 * 1),
                   Get ?req, Console (AttemptFailed 2 e2), Sleep (2000 * 2),
                   Get ?req, Console (AttemptFailed 3 e3), Console (AllRetriesFailed e3)]\<rparr>)"
    if "list_all (rejected validateStatus_default) (replies E ?req maxRetries (world s))"
  proof -
    from that rs obtain e1 e2 e3 where
      e: "settle validateStatus_default r1 = Inl e1" "settle validateStatus_default r2 = Inl e2"
         "settle validateStatus_default r3 = Inl e3"
      by (auto elim!: rejectedE)
    from p1_retry_trace [OF c e] e rs show ?thesis
      by simp
  qed
  have "maxRetries = 3"
    by (simp add: maxRetries_def)
  with ts p1 show ?thesis
    by simp
qed

theorem retry_ceiling_three_attempts_witness:
  "list_all (rejected validateStatus_ts)
     (replies (example_env source_down accepting)
        (pages_request (example_env source_down accepting) (js ''doc'') 1) maxRetries (world start))
   \<and> fst (getClickUpPagesWithRetry_ts (example_env source_down accepting) (js ''doc'') start)
       = Inl (AxiosError (Some 503))
   \<and> sleeps (trace (snd (getClickUpPagesWithRetry_ts (example_env source_down accepting) (js ''doc'') start)))
       = [2000, 4000]
   \<and> length (gets (trace (snd (getClickUpPagesWithRetry_ts (example_env source_down accepting) (js ''doc'') start))))
       = 3"
proof -
  let ?E = "example_env source_down accepting"
  let ?req = "pages_request ?E (js ''doc'') 1"
  have rs: "replies ?E ?req maxRetries (world start)
      = [Response 503 JNull, Response 503 JNull, Response 503 JNull]"
    by (simp add: start_def replies_source_down)
  then have down: "list_all (rejected validateStatus_ts) (replies ?E ?req maxRetries (world start))"
    by (simp add: rejected_def settle_examples)
  note facts = retry_ceiling_three_attempts [of ?E "js ''doc''" start]
  from facts have
    "list_all (rejected validateStatus_ts) (replies ?E ?req maxRetries (world start)) \<longrightarrow>
       (\<exists>e1 e2 e3 w.
          map (settle validateStatus_ts) (replies ?E ?req maxRetries (world start)) = [Inl e1, Inl e2, Inl e3]
          \<and> getClickUpPagesWithRetry_ts ?E (js ''doc'') start =
              (Inl e3,
               \<lparr>world = w,
                trace = trace start @
                  [Get ?req, Console (AttemptFailed 1 e1), Sleep (min 10000 (2000 * 2 ^ (1 - 1))),
                   Get ?req, Console (AttemptFailed 2 e2), Sleep (min 10000 (2000 * 2 ^ (2 - 1))),
                   Get ?req, Console (AttemptFailed 3 e3), Console (AllRetriesFailed e3)]\<rparr>))"
    by (rule conjunct1 [OF conjunct2])
  from this down have
    "\<exists>e1 e2 e3 w.
          map (settle validateStatus_ts) (replies ?E ?req maxRetries (world start)) = [Inl e1, Inl e2, Inl e3]
          \<and> getClickUpPagesWithRetry_ts ?E (js ''doc'') start =
              (Inl e3,
               \<lparr>world = w,
                trace = trace start @
                  [Get ?req, Console (AttemptFailed 1 e1), Sleep (min 10000 (2000 * 2 ^ (1 - 1))),
                   Get ?req, Console (AttemptFailed 2 e2), Sleep (min 10000 (2000 * 2 ^ (2 - 1))),
                   Get ?req, Console (AttemptFailed 3 e3), Console (AllRetriesFailed e3)]\<rparr>)"
    by (rule mp)
  then obtain e1 e2 e3 w where
    es: "map (settle validateStatus_ts) (replies ?E ?req maxRetries (world start)) = [Inl e1, Inl e2, Inl e3]"
    and run: "getClickUpPagesWithRetry_ts ?E (js ''doc'') start =
              (Inl e3,
               \<lparr>world = w,
                trace = trace start @
                  [Get ?req, Console (AttemptFailed 1 e1), Sleep (min 10000 (2000 * 2 ^ (1 - 1))),
                   Get ?req, Console (AttemptFailed 2 e2), Sleep (min 10000 (2000 * 2 ^ (2 - 1))),
                   Get ?req, Console (AttemptFailed 3 e3), Console (AllRetriesFailed e3)]\<rparr>)"
    by (elim exE conjE)
  from es have "e3 = AxiosError (Some 503)"
    by (auto simp add: rs settle_examples)
  with run down show ?thesis
    by (simp add: start_def)
qed

lemma getClickUpPages_p2_posts: "posts (trace (snd (getClickUpPages_p2 E docId s))) = posts (trace s)"
  by (simp add: getClickUpPages_p2_def clickupApi_get_def emit_def posts_append
      split: prod.splits sum.splits)

lemma getAllDocs_p2_posts: "posts (trace (snd (getAllDocs_p2 E s))) = posts (trace s)"
  by (simp add: getAllDocs_p2_def clickupApi_get_def emit_def posts_append
      split: prod.splits sum.splits)

lemma processPages_p2_data_posts:
  "processPages_p2_data E data s = (r, s') \<Longrightarrow>
     length (posts (trace s')) = length (posts (trace s)) + (case r of Inl error \<Rightarrow> 0 | Inr n \<Rightarrow> n)"
  by (cases "forOf data")
     (auto simp add: processPages_p2_data_def processPages_p2_upserted posts_upserted)

lemma main_p2_docs_total:
  "fst (main_p2_docs E docIds k s) + length (posts (trace s))
     = k + length (posts (trace (snd (main_p2_docs E docIds k s))))"
proof (induction docIds arbitrary: k s)
  case Nil
  show ?case by simp
next
  case (Cons docId docIds)
  obtain r s1 where f: "getClickUpPages_p2 E docId s = (r, s1)"
    by (cases "getClickUpPages_p2 E docId s")
  have p1: "posts (trace s1) = posts (trace s)"
    using getClickUpPages_p2_posts [of E docId s] by (simp add: f)
  show ?case
  proof (cases r)
    case (Inl error)
    with f p1 Cons.IH [of k "emit (Console (DocError docId error)) s1"] show ?thesis
      by (simp add: emit_def posts_append)
  next
    case (Inr data)
    obtain r2 s2 where p: "processPages_p2_data E data s1 = (r2, s2)"
      by (cases "processPages_p2_data E data s1")
    note p2 = processPages_p2_data_posts [OF p]
    show ?thesis
    proof (cases r2)
      case (Inl error)
      with f Inr p p1 p2 Cons.IH [of k "emit (Console (DocError docId error)) s2"] show ?thesis
        by (simp add: emit_def posts_append)
    next
      case r2: (Inr n)
      with f Inr p p1 p2 Cons.IH [of "k + n" "emit (Console (DocProcessed docId)) s2"] show ?thesis
        by (simp add: emit_def posts_append)
    qed
  qed
qed

text \<open>
  The total \<open>main\<close> of \<open>part_002\<close> reports as "pages upserted" is the number of writes
  the run has sent, those that failed included.
\<close>

theorem main_p2_total_counts_writes:
  assumes "getAllDocs_p2 E s = (Inr docIds, s1)"
  shows "last (trace (snd (main_p2 E s)))
           = Console (TotalUpserted (length (posts (trace (snd (main_p2 E s)))) - length (posts (trace s))))"
proof -
  obtain total s2 where m: "main_p2_docs E docIds 0 s1 = (total, s2)"
    by (cases "main_p2_docs E docIds 0 s1")
  have run: "main_p2 E s = (Inr (), emit (Console (TotalUpserted total)) s2)"
    by (simp only: main_p2_def assms m prod.case sum.case)
  have "posts (trace s1) = posts (trace s)"
    using getAllDocs_p2_posts [of E s] by (simp add: assms)
  with main_p2_docs_total [of E docIds 0 s1] have "total + length (posts (trace s)) = length (posts (trace s2))"
    by (simp add: m)
  then have "total = length (posts (trace s2)) - length (posts (trace s))"
    by arith
  then show ?thesis
    by (simp add: run emit_def posts_append)
qed

theorem main_p2_total_counts_writes_witness:
  "getAllDocs_p2 (example_env source_one_doc failing_first) start
     = (Inr [js ''doc''],
        \<lparr>world = (1, 0), trace = [Get (docs_request (example_env source_one_doc failing_first))]\<rparr>)
   \<and> length (posts (trace (snd (main_p2 (example_env source_one_doc failing_first) start)))) = 3
   \<and> last (trace (snd (main_p2 (example_env source_one_doc failing_first) start)))
       = Console (TotalUpserted 3)"
proof -
  let ?E = "example_env source_one_doc failing_first"
  let ?s1 = "\<lparr>world = (Suc 0, 0 :: nat), trace = [Get (docs_request ?E)]\<rparr>"
  have docs: "getAllDocs_p2 ?E start = (Inr [js ''doc''], ?s1)"
    by (simp add: getAllDocs_p2_def clickupApi_get_def start_def example_env_sel source_one_doc_def
        docs_request_def settle_examples)
  have sent: "length (posts (trace (snd (main_p2 ?E start)))) = 3"
    by (simp add: main_p2_example emit_def posts_append posts_upserted)
  from main_p2_total_counts_writes [OF docs] sent docs show ?thesis
    by (simp add: start_def)
qed

end
